theory Spec2Isabelle
  imports Complex_Main "HOL-Library.Log_Nat"
begin


section \<open>Numeric values of gridded fields\<close>

text \<open>
  The arrays of \<^verbatim>\<open>utils.py\<close> hold IEEE floating-point numbers. A value of a data field
  is modelled as a finite number, one of the two infinities, or NaN. Finite values
  are exact reals: the claims about data fields concern which comparison or which
  formula is evaluated, not its rounding error, so rounding, overflow and the sign of
  zero are left out for them. (The longitude remapping, where the claim is an exact
  equality of coordinates, is modelled with binary64 rounding further below.)
\<close>

datatype f64 = Fin real | PInf | NInf | NaN

text \<open>The comparison \<^verbatim>\<open>a > b\<close> of numpy: false as soon as one side is NaN.\<close>

fun f64_gt :: "f64 \<Rightarrow> f64 \<Rightarrow> bool" where
  "f64_gt NaN y = False"
| "f64_gt x NaN = False"
| "f64_gt PInf y = (y \<noteq> PInf)"
| "f64_gt NInf y = False"
| "f64_gt (Fin a) PInf = False"
| "f64_gt (Fin a) NInf = True"
| "f64_gt (Fin a) (Fin b) = (b < a)"

definition isnan :: "f64 \<Rightarrow> bool" where
  "isnan x = (x = NaN)"

text \<open>Arithmetic on these values, with the IEEE rules for NaN and the infinities.\<close>

fun f64_neg :: "f64 \<Rightarrow> f64" where
  "f64_neg (Fin a) = Fin (- a)"
| "f64_neg PInf = NInf"
| "f64_neg NInf = PInf"
| "f64_neg NaN = NaN"

fun f64_add :: "f64 \<Rightarrow> f64 \<Rightarrow> f64" where
  "f64_add NaN y = NaN"
| "f64_add x NaN = NaN"
| "f64_add PInf NInf = NaN"
| "f64_add NInf PInf = NaN"
| "f64_add PInf y = PInf"
| "f64_add NInf y = NInf"
| "f64_add (Fin a) PInf = PInf"
| "f64_add (Fin a) NInf = NInf"
| "f64_add (Fin a) (Fin b) = Fin (a + b)"

definition f64_sub :: "f64 \<Rightarrow> f64 \<Rightarrow> f64" where
  "f64_sub x y = f64_add x (f64_neg y)"

text \<open>The sign of a value that is not NaN: \<open>-1\<close>, \<open>0\<close> or \<open>1\<close>.\<close>

fun f64_sgn :: "f64 \<Rightarrow> int" where
  "f64_sgn (Fin a) = (if a < 0 then - 1 else if a = 0 then 0 else 1)"
| "f64_sgn PInf = 1"
| "f64_sgn NInf = - 1"
| "f64_sgn NaN = 0"

fun f64_mul :: "f64 \<Rightarrow> f64 \<Rightarrow> f64" where
  "f64_mul NaN y = NaN"
| "f64_mul x NaN = NaN"
| "f64_mul (Fin a) (Fin b) = Fin (a * b)"
| "f64_mul x y =
     (if f64_sgn x * f64_sgn y = 0 then NaN
      else if f64_sgn x * f64_sgn y > 0 then PInf else NInf)"

text \<open>
  Division of numpy scalars and arrays: dividing by zero raises nothing, \<open>0 / 0\<close> is NaN
  and \<open>a / 0\<close> is an infinity of the sign of \<open>a\<close>.
\<close>

fun f64_div :: "f64 \<Rightarrow> f64 \<Rightarrow> f64" where
  "f64_div NaN y = NaN"
| "f64_div x NaN = NaN"
| "f64_div (Fin a) (Fin b) =
     (if b = 0 then (if a = 0 then NaN else if a > 0 then PInf else NInf) else Fin (a / b))"
| "f64_div (Fin a) y = Fin 0"
| "f64_div x (Fin b) =
     (if f64_sgn x * f64_sgn (Fin b) \<ge> 0 then x else f64_neg x)"
| "f64_div x y = NaN"

text \<open>The order of the values that are not NaN, as sorting uses it.\<close>

fun f64_le :: "f64 \<Rightarrow> f64 \<Rightarrow> bool" where
  "f64_le NInf y = True"
| "f64_le x PInf = True"
| "f64_le (Fin a) (Fin b) = (a \<le> b)"
| "f64_le x y = False"

text \<open>The errors that the modelled functions raise.\<close>

datatype py_error =
  ValueError | IndexError | KeyError | AttributeError | UnboundLocalError | FileNotFoundError
  | TypeError

text \<open>Running a fallible function over a list: the first error stops the loop.\<close>

fun map_err :: "('a \<Rightarrow> py_error + 'b) \<Rightarrow> 'a list \<Rightarrow> py_error + 'b list" where
  "map_err f [] = Inr []"
| "map_err f (x # xs) =
     (case f x of
        Inl e \<Rightarrow> Inl e
      | Inr y \<Rightarrow> (case map_err f xs of Inl e \<Rightarrow> Inl e | Inr ys \<Rightarrow> Inr (y # ys)))"



section \<open>Exceedance counting (\<^verbatim>\<open>temperature_index\<close>, lines 255-262)\<close>

text \<open>
  A time stamp of a daily series is a calendar date (year, month, day). A field with a
  time axis is the list of its time stamps and, for each of them, the grid of that day:
  a list of latitude rows, each a list of values along the longitude.
\<close>

type_synonym date = "int \<times> nat \<times> nat"

type_synonym grid = "f64 list list"

record field3 =
  valid_time :: "date list"
  days :: "grid list"

fun date_le :: "date \<Rightarrow> date \<Rightarrow> bool" where
  "date_le (y1, m1, d1) (y2, m2, d2) =
     (y1 < y2 \<or> (y1 = y2 \<and> (m1 < m2 \<or> (m1 = m2 \<and> d1 \<le> d2))))"

text \<open>
  \<^verbatim>\<open>tas_max.sel(valid_time=slice(f'{year}-01-01', f'{year}-12-31'))\<close>: the time steps
  whose label lies between the two bounds, both included, in the order of the axis.
\<close>

definition sel_year :: "field3 \<Rightarrow> int \<Rightarrow> field3" where
  "sel_year tas year =
     (let kept = filter (\<lambda>(t, g). date_le (year, 1, 1) t \<and> date_le t (year, 12, 31))
                   (zip (valid_time tas) (days tas))
      in \<lparr>valid_time = map fst kept, days = map snd kept\<rparr>)"

text \<open>
  \<^verbatim>\<open>tas_max_year > p95_hist\<close>: the threshold grid is broadcast along the time axis and
  compared cell by cell; the result is a boolean field on the grid of the threshold (the
  model field was interpolated onto the same latitudes and longitudes just before).
\<close>

definition gt_grid :: "grid \<Rightarrow> grid \<Rightarrow> bool list list" where
  "gt_grid g thr = map (\<lambda>(row, trow). map (\<lambda>(v, t). f64_gt v t) (zip row trow)) (zip g thr)"

definition gt_field :: "field3 \<Rightarrow> grid \<Rightarrow> bool list list list" where
  "gt_field tas thr = map (\<lambda>g. gt_grid g thr) (days tas)"

text \<open>
  \<^verbatim>\<open>.sum(dim='valid_time')\<close> of a boolean field: True counts 1, False counts 0, summed
  along the time axis into an integer grid.
\<close>

definition sum_time :: "nat \<Rightarrow> nat \<Rightarrow> bool list list list \<Rightarrow> int" where
  "sum_time i j bs = sum_list (map (\<lambda>b. if b ! i ! j then 1 else 0) bs)"

definition excedance_count :: "field3 \<Rightarrow> grid \<Rightarrow> int list list" where
  "excedance_count tas_max_year p95_hist =
     map (\<lambda>i. map (\<lambda>j. sum_time i j (gt_field tas_max_year p95_hist))
                [0 ..< length (p95_hist ! i)])
         [0 ..< length p95_hist]"

text \<open>A field is on the grid of the threshold when every day has the threshold's shape.\<close>

definition same_shape :: "grid \<Rightarrow> grid \<Rightarrow> bool" where
  "same_shape g thr = (map length g = map length thr)"

definition on_grid :: "field3 \<Rightarrow> grid \<Rightarrow> bool" where
  "on_grid tas thr =
     (length (valid_time tas) = length (days tas) \<and> list_all (\<lambda>g. same_shape g thr) (days tas))"





text \<open>The days of a field at one cell, with their dates.\<close>

definition cell_series :: "field3 \<Rightarrow> nat \<Rightarrow> nat \<Rightarrow> (date \<times> f64) list" where
  "cell_series tas i j = zip (valid_time tas) (map (\<lambda>g. g ! i ! j) (days tas))"


text \<open>
  A small field for the examples: one latitude, two longitudes, three days of 2025 and one
  of 2026. The second cell lies outside the data domain of the model (always NaN).
\<close>

definition example_tas :: field3 where
  "example_tas =
     \<lparr>valid_time = [(2025, 1, 1), (2025, 1, 2), (2025, 1, 3), (2026, 1, 1)],
      days = [[[Fin 31, NaN]], [[Fin 30, NaN]], [[NaN, NaN]], [[Fin 35, NaN]]]\<rparr>"

definition example_thr :: grid where
  "example_thr = [[Fin 30, Fin 30]]"

section \<open>Historical percentiles (\<^verbatim>\<open>calculate_historical_percentiles\<close>)\<close>

text \<open>
  The archive holds one file per year, \<^verbatim>\<open>era5_t2m_max_day_<year>.nc\<close>; its variable
  \<^verbatim>\<open>t2m\<close> has the dimensions (valid_time, latitude, longitude) and is modelled as the
  list of its daily grids. A year without a file makes \<^verbatim>\<open>xr.open_dataset\<close> fail.
\<close>

type_synonym archive = "int \<Rightarrow> grid list option"

text \<open>
  \<^verbatim>\<open>range(0, 720, step)\<close>: a step of zero raises ValueError, a negative step gives the
  empty range.
\<close>

definition lat_range :: "int \<Rightarrow> py_error + nat list" where
  "lat_range step =
     (if step = 0 then Inl ValueError
      else if step < 0 then Inr []
      else Inr (map (\<lambda>k. k * nat step) [0 ..< nat ((720 + step - 1) div step)]))"

text \<open>\<^verbatim>\<open>data['t2m'].isel(latitude=slice(lat, lat + step))\<close>, on every day of the file.\<close>

definition isel_latitude :: "nat \<Rightarrow> nat \<Rightarrow> grid list \<Rightarrow> grid list" where
  "isel_latitude lat step d = map (\<lambda>g. take step (drop lat g)) d"

text \<open>\<^verbatim>\<open>xr.concat(..., dim=...)\<close> raises ValueError on an empty list of arrays.\<close>

definition concat_time :: "grid list list \<Rightarrow> py_error + grid list" where
  "concat_time ds = (if ds = [] then Inl ValueError else Inr (concat ds))"

definition concat_latitude :: "grid list \<Rightarrow> py_error + grid" where
  "concat_latitude bands = (if bands = [] then Inl ValueError else Inr (concat bands))"

text \<open>
  The quantile of one cell's series, as xarray computes it for floating-point data
  (\<^verbatim>\<open>skipna\<close> unset): numpy's \<^verbatim>\<open>nanquantile\<close> with the default method
  \<^verbatim>\<open>linear\<close>. NaN values are removed; of the \<open>n\<close> remaining values, sorted, the
  virtual index \<open>q (n - 1)\<close> is split into its floor and its fractional part \<open>t\<close>,
  and the two neighbours \<open>a\<close>, \<open>b\<close> are interpolated as numpy's \<^verbatim>\<open>_lerp\<close> does:
  \<open>a + (b - a) t\<close>, replaced by \<open>b - (b - a) (1 - t)\<close> where \<open>t \<ge> 0.5\<close>.
\<close>

fun insort_f64 :: "f64 \<Rightarrow> f64 list \<Rightarrow> f64 list" where
  "insort_f64 x [] = [x]"
| "insort_f64 x (y # ys) = (if f64_le x y then x # y # ys else y # insort_f64 x ys)"

definition sort_f64 :: "f64 list \<Rightarrow> f64 list" where
  "sort_f64 xs = foldr insort_f64 xs []"

definition lerp :: "f64 \<Rightarrow> f64 \<Rightarrow> real \<Rightarrow> f64" where
  "lerp a b t =
     (let diff_b_a = f64_sub b a
      in if t \<ge> 1 / 2 then f64_sub b (f64_mul diff_b_a (Fin (1 - t)))
         else f64_add a (f64_mul diff_b_a (Fin t)))"

definition nanquantile :: "real \<Rightarrow> f64 list \<Rightarrow> f64" where
  "nanquantile q xs =
     (let arr = sort_f64 (filter (\<lambda>x. \<not> isnan x) xs); n = length arr
      in if n = 0 then NaN
         else let virtual_index = q * real (n - 1);
                  previous_index = nat \<lfloor>virtual_index\<rfloor>;
                  next_index = min (previous_index + 1) (n - 1);
                  gamma = virtual_index - real previous_index
              in lerp (arr ! previous_index) (arr ! next_index) gamma)"

text \<open>
  \<^verbatim>\<open>temporal_data.quantile(0.95, dim='valid_time')\<close>: the quantile of every cell along
  the time axis. The result has the latitudes and longitudes of the field.
\<close>

definition quantile_time :: "real \<Rightarrow> grid list \<Rightarrow> grid" where
  "quantile_time q d =
     (case d of
        [] \<Rightarrow> []
      | g0 # _ \<Rightarrow>
          map (\<lambda>i. map (\<lambda>j. nanquantile q (map (\<lambda>g. g ! i ! j) d)) [0 ..< length (g0 ! i)])
              [0 ..< length g0])"

text \<open>The loop over the years of one latitude band, and the band's percentile.\<close>

definition load_band :: "archive \<Rightarrow> nat \<Rightarrow> nat \<Rightarrow> int \<Rightarrow> py_error + grid list" where
  "load_band files lat step year =
     (case files year of
        None \<Rightarrow> Inl FileNotFoundError
      | Some data \<Rightarrow> Inr (isel_latitude lat step data))"

definition p95_band :: "archive \<Rightarrow> int list \<Rightarrow> nat \<Rightarrow> nat \<Rightarrow> py_error + grid" where
  "p95_band files years step lat =
     (case map_err (load_band files lat step) years of
        Inl e \<Rightarrow> Inl e
      | Inr temporal_lat_data \<Rightarrow>
          (case concat_time temporal_lat_data of
             Inl e \<Rightarrow> Inl e
           | Inr temporal_data \<Rightarrow> Inr (quantile_time (95 / 100) temporal_data)))"

text \<open>
  The function: the percentile field, and the first and last year that name the file it
  is written to (\<^verbatim>\<open>years[0]\<close> and \<^verbatim>\<open>years[-1]\<close>).
\<close>

definition calculate_historical_percentiles ::
  "archive \<Rightarrow> int list \<Rightarrow> int \<Rightarrow> py_error + ((int \<times> int) \<times> grid)" where
  "calculate_historical_percentiles files years step =
     (case lat_range step of
        Inl e \<Rightarrow> Inl e
      | Inr lats \<Rightarrow>
          (case map_err (p95_band files years (nat step)) lats of
             Inl e \<Rightarrow> Inl e
           | Inr p95_bands \<Rightarrow>
               (case concat_latitude p95_bands of
                  Inl e \<Rightarrow> Inl e
                | Inr p95_final \<Rightarrow>
                    if years = [] then Inl IndexError
                    else Inr ((hd years, last years), p95_final))))"

text \<open>
  The reference of the specification: a single pass without bands. All the years are
  concatenated along the time axis on the full grid, and every cell gets the 95th
  percentile of its whole series.
\<close>

definition full_series :: "archive \<Rightarrow> int list \<Rightarrow> grid list" where
  "full_series files years = concat (map (\<lambda>y. case files y of None \<Rightarrow> [] | Some d \<Rightarrow> d) years)"

definition single_pass_p95 :: "archive \<Rightarrow> int list \<Rightarrow> grid" where
  "single_pass_p95 files years = quantile_time (95 / 100) (full_series files years)"

text \<open>
  The percentile as the specification words it, on real samples: linear interpolation
  between the two order statistics around the position \<open>p (n - 1)\<close>.
\<close>

definition percentile_linear :: "real \<Rightarrow> real list \<Rightarrow> real" where
  "percentile_linear p xs =
     (let s = sort xs; h = p * real (length xs - 1); g = h - real_of_int \<lfloor>h\<rfloor>
      in (1 - g) * s ! nat \<lfloor>h\<rfloor> + g * s ! nat \<lceil>h\<rceil>)"

text \<open>
  An archive on the fixed grid: every requested year has a file with at least one day,
  and every day of every file is a grid of 720 latitudes by \<open>nlon\<close> longitudes.
\<close>

definition era5_grid :: "nat \<Rightarrow> grid \<Rightarrow> bool" where
  "era5_grid nlon g = (length g = 720 \<and> list_all (\<lambda>row. length row = nlon) g)"

definition era5_archive :: "nat \<Rightarrow> archive \<Rightarrow> int list \<Rightarrow> bool" where
  "era5_archive nlon files years =
     list_all (\<lambda>y. case files y of
                      None \<Rightarrow> False
                    | Some d \<Rightarrow> d \<noteq> [] \<and> list_all (era5_grid nlon) d) years"

text \<open>The series of one cell over all the years, in the order of the time axis.\<close>

definition cell_values :: "grid list \<Rightarrow> nat \<Rightarrow> nat \<Rightarrow> f64 list" where
  "cell_values d i j = map (\<lambda>g. g ! i ! j) d"

text \<open>
  An archive for the examples: two days in 1995 and one in 1996, 720 latitudes by one
  longitude, the same value in every cell of a day.
\<close>

definition example_files :: archive where
  "example_files =
     (\<lambda>y. if y = 1995 then Some [replicate 720 [Fin 10], replicate 720 [Fin 20]]
          else if y = 1996 then Some [replicate 720 [Fin 30]]
          else None)"

section \<open>File names, labels and the three patterns\<close>

text \<open>\<^verbatim>\<open>f'{year}'\<close>: the decimal digits of an integer.\<close>

definition digit_char :: "nat \<Rightarrow> char" where
  "digit_char n = ''0123456789'' ! n"

function str_nat :: "nat \<Rightarrow> string" where
  "str_nat n = (if n < 10 then [digit_char n] else str_nat (n div 10) @ [digit_char (n mod 10)])"
  by pat_completeness auto
termination
  by (relation "measure id") auto

declare str_nat.simps [simp del]

definition str_int :: "int \<Rightarrow> string" where
  "str_int i = (if i < 0 then CHR ''-'' # str_nat (nat (- i)) else str_nat (nat i))"

definition is_digit :: "char \<Rightarrow> bool" where
  "is_digit c = (c \<in> set ''0123456789'')"

definition newline :: char where
  "newline = CHR 0x0A"

definition starts_with :: "string \<Rightarrow> string \<Rightarrow> bool" where
  "starts_with lit s = (take (length lit) s = lit)"

text \<open>
  The group of \<^verbatim>\<open>(.*)\<close> followed by a literal, matched at the start of a string: the
  dot takes any character but a newline, the star is greedy, so the engine first tries
  to let the group run on and falls back to a shorter group only when the rest fails.
\<close>

fun greedy_group :: "string \<Rightarrow> string \<Rightarrow> string option" where
  "greedy_group lit [] = (if starts_with lit [] then Some [] else None)"
| "greedy_group lit (c # cs) =
     (case (if c = newline then None else greedy_group lit cs) of
        Some g \<Rightarrow> Some (c # g)
      | None \<Rightarrow> (if starts_with lit (c # cs) then Some [] else None))"

text \<open>
  \<^verbatim>\<open>re.search(r'day_(.*)_r', model_file)\<close>: the leftmost position where the pattern
  matches, and there the group 1. No match gives None.
\<close>

fun search_day_r :: "string \<Rightarrow> string option" where
  "search_day_r [] = None"
| "search_day_r (c # cs) =
     (case (if starts_with ''day_'' (c # cs) then greedy_group ''_r'' (drop 4 (c # cs)) else None) of
        Some g \<Rightarrow> Some g
      | None \<Rightarrow> search_day_r cs)"

text \<open>
  \<^verbatim>\<open>(?P<year>\d{4})_(?P<model>.+?)_(?P<scenario>.+)\<close>. After the four digits and the
  underscore, the lazy group \<^verbatim>\<open>.+?\<close> holds at least one character and stops at the
  first underscore after which \<^verbatim>\<open>.+\<close> can match (at least one character that is not
  a newline); \<^verbatim>\<open>.+\<close> is greedy and runs to the end of the line.
\<close>

fun lazy_model :: "string \<Rightarrow> string \<Rightarrow> (string \<times> string) option" where
  "lazy_model acc [] = None"
| "lazy_model acc (c # cs) =
     (if c = CHR ''_'' \<and> cs \<noteq> [] \<and> hd cs \<noteq> newline
      then Some (acc, takeWhile (\<lambda>x. x \<noteq> newline) cs)
      else if c = newline then None
      else lazy_model (acc @ [c]) cs)"

definition match_column :: "string \<Rightarrow> (string \<times> string \<times> string) option" where
  "match_column s =
     (if length s \<ge> 5 \<and> list_all is_digit (take 4 s) \<and> s ! 4 = CHR ''_''
      then (case drop 5 s of
              [] \<Rightarrow> None
            | c # cs \<Rightarrow>
                (if c = newline then None
                 else map_option (\<lambda>(model, scenario). (take 4 s, model, scenario))
                        (lazy_model [c] cs)))
      else None)"

text \<open>
  \<^verbatim>\<open>columns.str.extract(pattern)\<close> searches every label: the leftmost match gives the
  three groups, a label without a match gives a row of NaN (None here).
\<close>

fun extract_column :: "string \<Rightarrow> (string \<times> string \<times> string) option" where
  "extract_column [] = None"
| "extract_column (c # cs) =
     (case match_column (c # cs) of
        Some r \<Rightarrow> Some r
      | None \<Rightarrow> extract_column cs)"

text \<open>
  \<^verbatim>\<open>re.search(r'_(\d{8})-(\d{8})', model_file_name)\<close>: the two groups at the leftmost
  match.
\<close>

definition match_dates :: "string \<Rightarrow> (string \<times> string) option" where
  "match_dates s =
     (if length s \<ge> 18 \<and> s ! 0 = CHR ''_'' \<and> list_all is_digit (take 8 (drop 1 s))
         \<and> s ! 9 = CHR ''-'' \<and> list_all is_digit (take 8 (drop 10 s))
      then Some (take 8 (drop 1 s), take 8 (drop 10 s)) else None)"

fun search_dates :: "string \<Rightarrow> (string \<times> string) option" where
  "search_dates [] = None"
| "search_dates (c # cs) =
     (case match_dates (c # cs) of
        Some r \<Rightarrow> Some r
      | None \<Rightarrow> search_dates cs)"

text \<open>\<^verbatim>\<open>int(...)\<close> of a string of decimal digits.\<close>

definition digit_val :: "char \<Rightarrow> nat" where
  "digit_val c = length (takeWhile (\<lambda>d. d \<noteq> c) ''0123456789'') mod 10"

definition int_of_digits :: "string \<Rightarrow> int" where
  "int_of_digits s = int (foldl (\<lambda>n c. 10 * n + digit_val c) 0 s)"


record model_file =
  model_id :: string
  scenario_id :: string
  variant_label :: string
  grid_label :: string
  start_date :: string
  end_date :: string





section \<open>Region aggregation (\<^verbatim>\<open>get_region_values\<close>)\<close>

text \<open>
  \<^verbatim>\<open>Series.sum()\<close> of pandas skips NaN and starts from zero (the sum of no value is 0).
\<close>

definition nansum :: "f64 list \<Rightarrow> f64" where
  "nansum xs = foldl f64_add (Fin 0) (filter (\<lambda>x. \<not> isnan x) xs)"

text \<open>
  A row of \<^verbatim>\<open>regions_df\<close>: the columns \<^verbatim>\<open>IMAGE_region\<close>, \<^verbatim>\<open>T95\<close> and
  \<^verbatim>\<open>population\<close>.
\<close>

type_synonym region_row = "f64 \<times> f64 \<times> f64"

text \<open>
  The function applied to each group:
  \<^verbatim>\<open>(x['T95'] * x['population']).sum() / x['population'].sum()\<close>.
\<close>

definition weighted_mean :: "region_row list \<Rightarrow> f64" where
  "weighted_mean x =
     f64_div (nansum (map (\<lambda>(r, t95, population). f64_mul t95 population) x))
             (nansum (map (\<lambda>(r, t95, population). population) x))"

text \<open>
  The result of \<^verbatim>\<open>get_region_values\<close>: a table with the column \<^verbatim>\<open>IMAGE_region\<close> and
  one column of values under the label \<^verbatim>\<open>f'{year}_{model_name}'\<close>.
\<close>

record region_values =
  column_label :: string
  region_rows :: "(f64 \<times> f64) list"

text \<open>
  The three grids are flattened row by row. \<^verbatim>\<open>pd.DataFrame\<close> refuses columns of
  different lengths (ValueError). \<^verbatim>\<open>groupby\<close> sorts the groups by their key. On a
  frame without rows, \<^verbatim>\<open>groupby(...).apply\<close> gives back an empty DataFrame, on which
  \<^verbatim>\<open>reset_index\<close> has no parameter \<^verbatim>\<open>name\<close> (TypeError). A file name without a
  match of the pattern fails on \<^verbatim>\<open>.group(1)\<close> of None (AttributeError).
\<close>

definition get_region_values ::
  "grid \<Rightarrow> grid \<Rightarrow> grid \<Rightarrow> string \<Rightarrow> int \<Rightarrow> py_error + region_values" where
  "get_region_values excedance pop_year region_mask model_file year =
     (case search_day_r model_file of
        None \<Rightarrow> Inl AttributeError
      | Some model_name \<Rightarrow>
          let region_array = concat region_mask;
              excedance_array = concat excedance;
              pop_array = concat pop_year
          in if length excedance_array \<noteq> length region_array
                \<or> length pop_array \<noteq> length region_array then Inl ValueError
             else
               let regions_df = filter (\<lambda>(r, t95, population). \<not> isnan r)
                                  (zip region_array (zip excedance_array pop_array));
                   keys = sort_f64 (remdups (map fst regions_df))
               in if regions_df = [] then Inl TypeError
                  else Inr \<lparr>column_label = str_int year @ ''_'' @ model_name,
                            region_rows =
                              map (\<lambda>k. (k, weighted_mean (filter (\<lambda>(r, t95, population). r = k)
                                                            regions_df))) keys\<rparr>)"

text \<open>
  The cells of the three co-registered fields as one list of rows, and the cells of a
  region.
\<close>

definition cells :: "grid \<Rightarrow> grid \<Rightarrow> grid \<Rightarrow> region_row list" where
  "cells excedance pop_year region_mask =
     zip (concat region_mask) (zip (concat excedance) (concat pop_year))"

definition region_cells :: "region_row list \<Rightarrow> f64 \<Rightarrow> region_row list" where
  "region_cells cs k = filter (\<lambda>(r, t95, population). r = k) cs"

text \<open>Co-registered fields: the three grids have the same shape.\<close>

definition co_registered :: "grid \<Rightarrow> grid \<Rightarrow> grid \<Rightarrow> bool" where
  "co_registered excedance pop_year region_mask =
     (same_shape excedance region_mask \<and> same_shape pop_year region_mask)"

text \<open>
  The example of the specification: one region with two cells, populations 10 and 30,
  exceedance counts 5 and 15, and a cell without a region.
\<close>

definition example_mask :: grid where
  "example_mask = [[Fin 1, Fin 1, NaN]]"

definition example_excedance :: grid where
  "example_excedance = [[Fin 5, Fin 15, Fin 7]]"

definition example_pop :: grid where
  "example_pop = [[Fin 10, Fin 30, Fin 99]]"

definition example_name :: string where
  "example_name = ''tasmax_day_ACCESS-CM2_ssp126_r1i1p1f1_gn_20150101-21001231.nc''"

text \<open>A mask with a second region whose two cells hold no population.\<close>

definition empty_region_mask :: grid where
  "empty_region_mask = [[Fin 1, Fin 1, Fin 2, Fin 2]]"

definition empty_region_excedance :: grid where
  "empty_region_excedance = [[Fin 5, Fin 15, Fin 3, Fin 4]]"

definition empty_region_pop :: grid where
  "empty_region_pop = [[Fin 10, Fin 30, Fin 0, Fin 0]]"

text \<open>
  The weighted mean as the specification writes it, on the real values of the cells of
  a region: \<open>sum (exceedance\<^sub>i * population\<^sub>i) / sum population\<^sub>i\<close>.
\<close>

fun fin_val :: "f64 \<Rightarrow> real" where
  "fin_val (Fin a) = a"
| "fin_val x = 0"

fun is_fin :: "f64 \<Rightarrow> bool" where
  "is_fin (Fin a) = True"
| "is_fin x = False"

definition finite_rows :: "region_row list \<Rightarrow> bool" where
  "finite_rows cs = list_all (\<lambda>(r, t95, population). is_fin t95 \<and> is_fin population) cs"

definition weighted_sum :: "region_row list \<Rightarrow> real" where
  "weighted_sum cs = sum_list (map (\<lambda>(r, t95, population). fin_val t95 * fin_val population) cs)"

definition total_population :: "region_row list \<Rightarrow> real" where
  "total_population cs = sum_list (map (\<lambda>(r, t95, population). fin_val population) cs)"

section \<open>Tables (\<^verbatim>\<open>temperature_index\<close>, \<^verbatim>\<open>temperature_index_all_models\<close>)\<close>

text \<open>
  A DataFrame of numbers: the name and the values of its index (an unnamed RangeIndex
  has the empty name and the values 0, 1, ...), and its columns in order, each a label
  with one value per row.
\<close>

record dataframe =
  index_name :: string
  index_values :: "f64 list"
  columns :: "(string \<times> f64 list) list"

definition range_index :: "nat \<Rightarrow> f64 list" where
  "range_index n = map (\<lambda>i. Fin (real i)) [0 ..< n]"

text \<open>
  \<^verbatim>\<open>pd.DataFrame(index=pd.Index(np.arange(1,28,1.), name='IMAGE_region'))\<close>: no column,
  the 27 region identifiers as index.
\<close>

definition initial_models_data :: dataframe where
  "initial_models_data =
     \<lparr>index_name = ''IMAGE_region'', index_values = map (\<lambda>i. Fin (real i)) [1 ..< 28],
      columns = []\<rparr>"

text \<open>
  The rows of an outer join on one key: the keys of both sides, each once and sorted;
  for a key, every left row with it paired with every right row with it, and a row
  without a partner kept alone.
\<close>

definition rows_with :: "f64 list \<Rightarrow> f64 \<Rightarrow> nat list" where
  "rows_with keys k = filter (\<lambda>i. keys ! i = k) [0 ..< length keys]"

definition join_rows :: "f64 list \<Rightarrow> f64 list \<Rightarrow> (f64 \<times> nat option \<times> nat option) list" where
  "join_rows lkeys rkeys =
     concat (map (\<lambda>k.
         let ls = rows_with lkeys k; rs = rows_with rkeys k
         in if rs = [] then map (\<lambda>i. (k, Some i, None)) ls
            else if ls = [] then map (\<lambda>j. (k, None, Some j)) rs
            else concat (map (\<lambda>i. map (\<lambda>j. (k, Some i, Some j)) rs) ls))
       (sort_f64 (remdups (lkeys @ rkeys))))"

definition take_rows :: "nat option list \<Rightarrow> f64 list \<Rightarrow> f64 list" where
  "take_rows sel vs = map (\<lambda>s. case s of None \<Rightarrow> NaN | Some i \<Rightarrow> vs ! i) sel"

text \<open>
  \<^verbatim>\<open>final_data.merge(final_regions, on='IMAGE_region', how='outer')\<close>. The key of the
  left table is its column \<^verbatim>\<open>IMAGE_region\<close> or, when it has no such column, its index
  of that name; without either the merge fails (KeyError). The key of the right table is
  its column. The result has a fresh RangeIndex and the key as a column: in the place
  it has on the left when it is a column there, after the left columns otherwise. The
  other columns of the left come first, then those of the right; a label present on
  both sides gets the suffixes \<^verbatim>\<open>_x\<close> and \<^verbatim>\<open>_y\<close>.
\<close>

definition merge_outer :: "dataframe \<Rightarrow> region_values \<Rightarrow> py_error + dataframe" where
  "merge_outer final_data final_regions =
     (let key = ''IMAGE_region'';
          rkeys = map fst (region_rows final_regions);
          rvals = map snd (region_rows final_regions);
          rlabel = column_label final_regions;
          lnames = filter (\<lambda>n. n \<noteq> key) (map fst (columns final_data))
      in case (case map_of (columns final_data) key of
                 Some ks \<Rightarrow> Some ks
               | None \<Rightarrow> if index_name final_data = key then Some (index_values final_data)
                          else None) of
           None \<Rightarrow> Inl KeyError
         | Some lkeys \<Rightarrow>
             let joined = join_rows lkeys rkeys;
                 keycol = (key, map fst joined);
                 lsel = map (\<lambda>(k, l, r). l) joined;
                 rsel = map (\<lambda>(k, l, r). r) joined;
                 lcols = map (\<lambda>(n, vs). if n = key then keycol
                                         else (if n = rlabel then n @ ''_x'' else n, take_rows lsel vs))
                           (columns final_data);
                 rcol = (if rlabel \<in> set lnames then rlabel @ ''_y'' else rlabel,
                         take_rows rsel rvals)
             in Inr \<lparr>index_name = [], index_values = range_index (length joined),
                     columns = (if key \<in> set (map fst (columns final_data)) then lcols @ [rcol]
                                else lcols @ [keycol, rcol])\<rparr>)"

text \<open>
  What \<^verbatim>\<open>temperature_index\<close> reads for one model file: the model field after
  \<^verbatim>\<open>align_data\<close>, the historical threshold interpolated onto the grid of the model,
  and, for each year, the population and the region mask interpolated onto that grid.
\<close>

record model_inputs =
  inp_tas_max :: field3
  inp_p95_hist :: grid
  inp_population :: "int \<Rightarrow> grid"
  inp_regions :: "int \<Rightarrow> grid"

text \<open>The years that the name of the file covers, from its two dates.\<close>

definition covered_years :: "string \<Rightarrow> (int \<times> int) option" where
  "covered_years model_file_name =
     map_option (\<lambda>(g1, g2). (int_of_digits (take 4 g1), int_of_digits (take 4 g2)))
       (search_dates model_file_name)"

text \<open>
  The loop over the requested years. A year outside the range of the file is passed
  over; for a year inside, the exceedance count is aggregated by region and merged into
  the table.
\<close>

fun index_years ::
  "model_inputs \<Rightarrow> string \<Rightarrow> int \<times> int \<Rightarrow> int list \<Rightarrow> dataframe \<Rightarrow> py_error + dataframe" where
  "index_years inp model_file_name covered [] final_data = Inr final_data"
| "index_years inp model_file_name covered (year # years) final_data =
     (if fst covered \<le> year \<and> year \<le> snd covered
      then (let tas_max_year = sel_year (inp_tas_max inp) year;
                counts = map (map (\<lambda>c. Fin (real_of_int c)))
                           (excedance_count tas_max_year (inp_p95_hist inp))
            in case get_region_values counts (inp_population inp year) (inp_regions inp year)
                      model_file_name year of
                 Inl e \<Rightarrow> Inl e
               | Inr final_regions \<Rightarrow>
                   (case merge_outer final_data final_regions of
                      Inl e \<Rightarrow> Inl e
                    | Inr merged \<Rightarrow> index_years inp model_file_name covered years merged))
      else index_years inp model_file_name covered years final_data)"

text \<open>
  \<^verbatim>\<open>temperature_index\<close>. A file name without the two dates fails on \<^verbatim>\<open>.group(1)\<close> of
  None. The function returns the table and the loop variable \<^verbatim>\<open>year\<close>, which is
  unbound when the list of years is empty.
\<close>

definition temperature_index ::
  "int list \<Rightarrow> model_inputs \<Rightarrow> dataframe \<Rightarrow> string \<Rightarrow> py_error + (dataframe \<times> int)" where
  "temperature_index years inp final_data model_file_name =
     (case covered_years model_file_name of
        None \<Rightarrow> Inl AttributeError
      | Some covered \<Rightarrow>
          (case index_years inp model_file_name covered years final_data of
             Inl e \<Rightarrow> Inl e
           | Inr final \<Rightarrow>
               if years = [] then Inl UnboundLocalError else Inr (final, last years)))"

text \<open>The loop of \<^verbatim>\<open>temperature_index_all_models\<close> over the files of the directory.\<close>

fun all_files ::
  "(string \<Rightarrow> model_inputs) \<Rightarrow> int list \<Rightarrow> string list \<Rightarrow> dataframe \<Rightarrow> py_error + dataframe" where
  "all_files inputs years [] models_data = Inr models_data"
| "all_files inputs years (file # files) models_data =
     (case temperature_index years (inputs file) models_data file of
        Inl e \<Rightarrow> Inl e
      | Inr (models_data', year) \<Rightarrow> all_files inputs years files models_data')"

text \<open>
  The key of a column: \<^verbatim>\<open>column_info['year'].astype(str) + '_' +
  column_info['scenario'].astype(str)\<close>. A label that the pattern does not match has NaN
  in both groups, which \<^verbatim>\<open>astype(str)\<close> turns into the text \<^verbatim>\<open>nan\<close>.
\<close>

definition group_key :: "string \<Rightarrow> string" where
  "group_key col =
     (case extract_column col of
        None \<Rightarrow> ''nan_nan''
      | Some (year, model, scenario) \<Rightarrow> year @ ''_'' @ scenario)"

text \<open>\<^verbatim>\<open>unique()\<close>: the values in the order of their first occurrence.\<close>

definition unique :: "'a list \<Rightarrow> 'a list" where
  "unique xs = rev (remdups (rev xs))"

text \<open>
  \<^verbatim>\<open>mean(axis=1)\<close> and \<^verbatim>\<open>std(axis=1)\<close> of pandas, row by row over some columns: NaN
  is skipped, the mean of no value is NaN, the standard deviation has one degree of
  freedom less than values and is NaN for fewer than two values.
\<close>

fun f64_sqrt :: "f64 \<Rightarrow> f64" where
  "f64_sqrt (Fin a) = (if a < 0 then NaN else Fin (sqrt a))"
| "f64_sqrt PInf = PInf"
| "f64_sqrt x = NaN"

definition nanmean :: "f64 list \<Rightarrow> f64" where
  "nanmean xs =
     (let n = length (filter (\<lambda>x. \<not> isnan x) xs)
      in if n = 0 then NaN else f64_div (nansum xs) (Fin (real n)))"

definition nanstd :: "f64 list \<Rightarrow> f64" where
  "nanstd xs =
     (let ys = filter (\<lambda>x. \<not> isnan x) xs; n = length ys
      in if n < 2 then NaN
         else f64_sqrt (f64_div
                (foldl f64_add (Fin 0)
                   (map (\<lambda>y. f64_mul (f64_sub (nanmean xs) y) (f64_sub (nanmean xs) y)) ys))
                (Fin (real (n - 1)))))"

definition row_wise :: "(f64 list \<Rightarrow> f64) \<Rightarrow> nat \<Rightarrow> (string \<times> f64 list) list \<Rightarrow> f64 list" where
  "row_wise f nrows cols = map (\<lambda>i. f (map (\<lambda>(n, vs). vs ! i) cols)) [0 ..< nrows]"

text \<open>The columns of \<^verbatim>\<open>df_mean\<close> and \<^verbatim>\<open>df_std\<close>: one per group, in the order of the groups.\<close>

definition group_columns ::
  "(f64 list \<Rightarrow> f64) \<Rightarrow> string \<Rightarrow> dataframe \<Rightarrow> (string \<times> f64 list) list" where
  "group_columns f suffix models_data =
     map (\<lambda>group.
            (group @ suffix,
             row_wise f (length (index_values models_data))
               (filter (\<lambda>(n, vs). group_key n = group) (columns models_data))))
         (unique (map (\<lambda>(n, vs). group_key n) (columns models_data)))"

text \<open>
  \<^verbatim>\<open>index.astype(int)\<close>: a finite value is truncated towards zero, NaN and the
  infinities cannot be converted (ValueError).
\<close>

fun f64_to_int :: "f64 \<Rightarrow> py_error + int" where
  "f64_to_int (Fin a) = Inr (if a \<ge> 0 then \<lfloor>a\<rfloor> else \<lceil>a\<rceil>)"
| "f64_to_int x = Inl ValueError"

text \<open>
  The final table: the region identifiers as index, the column \<^verbatim>\<open>Region\<close> with the names,
  and the numeric columns.
\<close>

record summary_table =
  region_id :: "int list"
  region_name :: "string list"
  summary_columns :: "(string \<times> f64 list) list"

text \<open>
  \<^verbatim>\<open>pd.merge(image_names['Region'], df_summary, left_index=True, right_index=True)\<close>: an
  inner join on the two indexes, in the order of the table of names.
\<close>

definition merge_names ::
  "(int \<times> string) list \<Rightarrow> int list \<Rightarrow> (string \<times> f64 list) list \<Rightarrow> summary_table" where
  "merge_names image_names ids cols =
     (let pairs = concat (map (\<lambda>(rid, name).
                     map (\<lambda>j. (rid, name, j)) (filter (\<lambda>j. ids ! j = rid) [0 ..< length ids]))
                   image_names)
      in \<lparr>region_id = map (\<lambda>(rid, name, j). rid) pairs,
          region_name = map (\<lambda>(rid, name, j). name) pairs,
          summary_columns = map (\<lambda>(n, vs). (n, map (\<lambda>(rid, name, j). vs ! j) pairs)) cols\<rparr>)"

text \<open>
  \<^verbatim>\<open>temperature_index_all_models\<close>, from the list of the files that \<^verbatim>\<open>glob\<close> found and
  the table of region names. \<^verbatim>\<open>set_index('nan_nan_model-mean')\<close> fails (KeyError) when
  the summary has no column of that name.
\<close>

definition temperature_index_all_models ::
  "(string \<Rightarrow> model_inputs) \<Rightarrow> string list \<Rightarrow> (int \<times> string) list \<Rightarrow> int list
     \<Rightarrow> py_error + summary_table" where
  "temperature_index_all_models inputs files image_names years =
     (case all_files inputs years files initial_models_data of
        Inl e \<Rightarrow> Inl e
      | Inr models_data \<Rightarrow>
          let df_mean = group_columns nanmean ''_model-mean'' models_data;
              df_std = group_columns nanstd ''_model-std'' models_data;
              df_summary = df_mean @ df_std
          in case map_of df_summary ''nan_nan_model-mean'' of
               None \<Rightarrow> Inl KeyError
             | Some ids \<Rightarrow>
                 (case map_err f64_to_int ids of
                    Inl e \<Rightarrow> Inl e
                  | Inr int_ids \<Rightarrow>
                      Inr (merge_names image_names int_ids
                             (filter (\<lambda>(n, vs). n \<noteq> ''nan_nan_model-mean'') df_summary))))"

text \<open>The labels that the specification gives to the final table, for some groups.\<close>

definition expected_labels :: "(string \<times> string) list \<Rightarrow> string set" where
  "expected_labels groups =
     (\<Union>(year, scenario) \<in> set groups.
        {year @ ''_'' @ scenario @ ''_model-mean'', year @ ''_'' @ scenario @ ''_model-std''})"

text \<open>
  One model file over a grid of two cells in the regions 1 and 2, with temperatures
  above the threshold on three and on one day of 2025, and the names of two regions.
\<close>

definition example_inputs :: "string \<Rightarrow> model_inputs" where
  "example_inputs file =
     \<lparr>inp_tas_max = \<lparr>valid_time = [(2025, 7, 1), (2025, 7, 2), (2025, 7, 3)],
                  days = [[[Fin 31, Fin 31]], [[Fin 32, Fin 29]], [[Fin 33, Fin 28]]]\<rparr>,
      inp_p95_hist = [[Fin 30, Fin 30]],
      inp_population = (\<lambda>year. [[Fin 10, Fin 20]]),
      inp_regions = (\<lambda>year. [[Fin 1, Fin 2]])\<rparr>"

definition example_region_names :: "(int \<times> string) list" where
  "example_region_names = [(1, ''Canada''), (2, ''USA'')]"

section \<open>Grid alignment (\<^verbatim>\<open>homogenize_lat_lon\<close>, \<^verbatim>\<open>align_data\<close>)\<close>















section \<open>Longitude shift (\<^verbatim>\<open>align_data\<close>, lines 91-92)\<close>

text \<open>
  The longitude coordinate is an array of binary64 numbers, and the claim about it is an
  equality of coordinates, so the arithmetic on it is modelled with its rounding. A
  binary64 number is a real \<open>m * 2\<^sup>e\<close> with an integer \<open>m\<close> of at most 53 bits; the
  result of an operation is the exact result rounded to the nearest such number, a tie
  going to the even \<open>m\<close>. The range of the exponent is not modelled (longitudes are far
  from overflow and underflow).
\<close>

definition round_half_even :: "real \<Rightarrow> int" where
  "round_half_even x =
     (let f = \<lfloor>x\<rfloor>; d = x - of_int f
      in if d < 1 / 2 then f else if d > 1 / 2 then f + 1 else if even f then f else f + 1)"

definition fl64 :: "real \<Rightarrow> real" where
  "fl64 x =
     (if x = 0 then 0
      else let e = \<lfloor>log 2 \<bar>x\<bar>\<rfloor>; ulp = 2 powr (of_int e - 52)
           in of_int (round_half_even (x / ulp)) * ulp)"

definition f64_plus :: "real \<Rightarrow> real \<Rightarrow> real" where
  "f64_plus x y = fl64 (x + y)"

definition f64_minus :: "real \<Rightarrow> real \<Rightarrow> real" where
  "f64_minus x y = fl64 (x - y)"

text \<open>
  The operator \<^verbatim>\<open>%\<close> of numpy on floating-point numbers, for a divisor that is not zero:
  the remainder of the C function \<^verbatim>\<open>fmod\<close> (exact, with the sign of the dividend), to
  which the divisor is added, with rounding, when it is not zero and its sign differs from
  the sign of the divisor.
\<close>

definition fmod :: "real \<Rightarrow> real \<Rightarrow> real" where
  "fmod a b = a - b * of_int (if a / b \<ge> 0 then \<lfloor>a / b\<rfloor> else \<lceil>a / b\<rceil>)"

definition np_mod :: "real \<Rightarrow> real \<Rightarrow> real" where
  "np_mod a b =
     (let r = fmod a b
      in if r \<noteq> 0 \<and> ((b < 0) \<noteq> (r < 0)) then f64_plus r b else r)"

text \<open>\<^verbatim>\<open>(data.coords['longitude'] + 180) % 360 - 180\<close>, for one longitude.\<close>

definition wrap_longitude :: "real \<Rightarrow> real" where
  "wrap_longitude lon = f64_minus (np_mod (f64_plus lon 180) 360) 180"

text \<open>
  \<^verbatim>\<open>data.assign_coords(longitude=...).sortby("longitude")\<close>. The data is modelled along
  the longitude: for each longitude, the values of the field there. The new coordinate is
  assigned and the field is sorted by it, ascending; the sort is stable.
\<close>

definition longitude_shift :: "(real \<times> 'a) list \<Rightarrow> (real \<times> 'a) list" where
  "longitude_shift data = sort_key fst (map (\<lambda>(lon, v). (wrap_longitude lon, v)) data)"

text \<open>
  The longitudes on which the three operations are exact: the multiples of \<open>2\<^sup>-\<^sup>4\<^sup>3\<close>
  between \<open>-360\<close> and \<open>360\<close>. The grids with a spacing such as 0.25, 1.25, 1.875 or
  2.8125 degrees are of this kind; a grid with a spacing of 0.1 degree is not.
\<close>

definition dyadic_lon :: "real \<Rightarrow> bool" where
  "dyadic_lon x = (of_int \<lfloor>x * 2 ^ 43\<rfloor> = x * 2 ^ 43 \<and> \<bar>x\<bar> \<le> 360)"

text \<open>
  The binary64 number nearest to 0.1, and a grid of four longitudes in the convention
  from 0 to 360.
\<close>

definition tenth :: real where
  "tenth = 3602879701896397 / 36028797018963968"

definition example_longitudes :: "(real \<times> nat) list" where
  "example_longitudes = [(0, 0), (90, 1), (180, 2), (270, 3)]"


section \<open>Properties of the exceedance count\<close>

lemma gt_grid_nth:
  assumes "same_shape g thr" "i < length thr" "j < length (thr ! i)"
  shows "gt_grid g thr ! i ! j = f64_gt (g ! i ! j) (thr ! i ! j)"
proof -
  from assms(1) have len: "length g = length thr"
    unfolding same_shape_def by (metis length_map)
  from assms(1,2) len have row: "length (g ! i) = length (thr ! i)"
    unfolding same_shape_def by (metis nth_map)
  show ?thesis
    using assms(2,3) len row by (simp add: gt_grid_def)
qed

lemma sum_time_count:
  assumes "list_all (\<lambda>g. same_shape g thr) gs" "i < length thr" "j < length (thr ! i)"
  shows "sum_time i j (map (\<lambda>g. gt_grid g thr) gs)
         = int (length (filter (\<lambda>g. f64_gt (g ! i ! j) (thr ! i ! j)) gs))"
  using assms by (induction gs) (simp_all add: sum_time_def gt_grid_nth)

lemma excedance_count_nth:
  assumes "i < length thr" "j < length (thr ! i)"
  shows "excedance_count tas thr ! i ! j = sum_time i j (gt_field tas thr)"
  using assms by (simp add: excedance_count_def)









lemma example_on_grid: "on_grid example_tas example_thr"
  by (simp add: on_grid_def example_tas_def example_thr_def same_shape_def)



lemma count_zip:
  assumes "length ts = length gs"
  shows "length (filter (\<lambda>g. Q (f g)) gs) = length (filter (\<lambda>(t, v). Q v) (zip ts (map f gs)))"
  using assms by (induction ts gs rule: list_induct2) simp_all

text \<open>
  Claim C10. A day whose model value is NaN is never an exceedance day: the count of a
  cell is the number of its days that are not NaN and exceed the threshold. It is a
  non-negative integer, and it is 0 for a cell whose days are all NaN.
\<close>

theorem nan_days_not_counted:
  assumes "on_grid tas thr" "i < length thr" "j < length (thr ! i)"
  shows "excedance_count tas thr ! i ! j
           = int (length (filter (\<lambda>(t, v). \<not> isnan v \<and> f64_gt v (thr ! i ! j))
                            (cell_series tas i j)))
         \<and> 0 \<le> excedance_count tas thr ! i ! j
         \<and> (list_all (\<lambda>(t, v). isnan v) (cell_series tas i j)
              \<longrightarrow> excedance_count tas thr ! i ! j = 0)"
proof -
  let ?cs = "cell_series tas i j"
  have shapes: "list_all (\<lambda>g. same_shape g thr) (days tas)"
    and len: "length (valid_time tas) = length (days tas)"
    using assms(1) by (simp_all add: on_grid_def)
  have "excedance_count tas thr ! i ! j = sum_time i j (map (\<lambda>g. gt_grid g thr) (days tas))"
    using assms(2,3) by (simp add: excedance_count_nth gt_field_def)
  also have "\<dots> = int (length (filter (\<lambda>g. f64_gt (g ! i ! j) (thr ! i ! j)) (days tas)))"
    by (rule sum_time_count [OF shapes assms(2,3)])
  also have "length (filter (\<lambda>g. f64_gt (g ! i ! j) (thr ! i ! j)) (days tas))
             = length (filter (\<lambda>(t, v). f64_gt v (thr ! i ! j)) ?cs)"
    unfolding cell_series_def by (rule count_zip [OF len])
  also have "filter (\<lambda>(t, v). f64_gt v (thr ! i ! j)) ?cs
             = filter (\<lambda>(t, v). \<not> isnan v \<and> f64_gt v (thr ! i ! j)) ?cs"
    by (rule filter_cong [OF refl]) (auto simp: isnan_def)
  finally have eq: "excedance_count tas thr ! i ! j
           = int (length (filter (\<lambda>(t, v). \<not> isnan v \<and> f64_gt v (thr ! i ! j)) ?cs))" .
  have "filter (\<lambda>(t, v). \<not> isnan v \<and> f64_gt v (thr ! i ! j)) ?cs = []"
    if "list_all (\<lambda>(t, v). isnan v) ?cs"
    using that by (auto simp: filter_empty_conv list_all_iff)
  with eq show ?thesis by simp
qed

theorem nan_days_not_counted_witness:
  "on_grid example_tas example_thr \<and> 0 < length example_thr \<and> 1 < length (example_thr ! 0)
   \<and> list_all (\<lambda>(t, v). isnan v) (cell_series example_tas 0 1)
   \<and> excedance_count example_tas example_thr ! 0 ! 1 = 0
   \<and> excedance_count example_tas example_thr ! 0 ! 0 = 2"
proof -
  have r: "0 < length example_thr" "1 < length (example_thr ! 0)" "0 < length (example_thr ! 0)"
    by (simp_all add: example_thr_def)
  have n: "list_all (\<lambda>(t, v). isnan v) (cell_series example_tas 0 1)"
    by (simp add: cell_series_def example_tas_def isnan_def)
  have c: "length (filter (\<lambda>(t, v). \<not> isnan v \<and> f64_gt v (example_thr ! 0 ! 0))
                  (cell_series example_tas 0 0)) = 2"
    by (simp add: cell_series_def example_tas_def example_thr_def isnan_def)
  from nan_days_not_counted [OF example_on_grid r(1,2)] n
  have a: "excedance_count example_tas example_thr ! 0 ! 1 = 0" by blast
  from nan_days_not_counted [OF example_on_grid r(1,3)] c
  have b: "excedance_count example_tas example_thr ! 0 ! 0 = 2" by simp
  from a b n example_on_grid r(1,2) show ?thesis by blast
qed


section \<open>Properties of the historical percentiles\<close>

lemma map_err_Inr:
  assumes "\<And>x. x \<in> set xs \<Longrightarrow> f x = Inr (g x)"
  shows "map_err f xs = Inr (map g xs)"
  using assms by (induction xs) simp_all

lemma concat_bands:
  "concat (map (\<lambda>k. take step (drop (k * step) r)) [0 ..< m]) = take (m * step) r"
proof (induction m)
  case 0
  show ?case by simp
next
  case (Suc m)
  have "take (m * step) r @ take step (drop (m * step) r) = take (m * step + step) r"
    by (simp add: take_add)
  with Suc show ?case by (simp add: add.commute)
qed

lemma bands_cover:
  assumes "0 < step"
  shows "720 \<le> nat ((720 + step - 1) div step) * nat step"
    and "0 < nat ((720 + step - 1) div step)"
proof -
  let ?a = "720 + step - 1"
  let ?m = "?a div step"
  have "?m * step + ?a mod step = ?a" by (simp only: div_mult_mod_eq)
  moreover have "?a mod step < step" using assms by (rule pos_mod_bound)
  ultimately have *: "720 \<le> ?m * step" by linarith
  have m0: "0 \<le> ?m" using assms by (simp add: pos_imp_zdiv_nonneg_iff)
  from * have "720 \<le> int (nat ?m * nat step)"
    using assms m0 by simp
  then show "720 \<le> nat ?m * nat step" by linarith
  from * assms show "0 < nat ?m"
    by (smt (verit) mult_not_zero zero_less_nat_eq m0)
qed

lemma quantile_time_isel:
  assumes "d \<noteq> []" "\<And>g. g \<in> set d \<Longrightarrow> length g = n"
  shows "quantile_time q (isel_latitude lat step d) = take step (drop lat (quantile_time q d))"
proof -
  obtain g0 rest where d: "d = g0 # rest" using assms(1) by (cases d) auto
  have n: "length g0 = n" using assms(2) d by simp
  let ?F = "\<lambda>i. map (\<lambda>j. nanquantile q (map (\<lambda>g. g ! i ! j) d)) [0 ..< length (g0 ! i)]"
  let ?m = "min step (n - lat)"
  have rhs: "take step (drop lat (quantile_time q d)) = map ?F (take step (drop lat [0 ..< n]))"
    unfolding d quantile_time_def by (simp add: n take_map drop_map del: upt_Suc)
  have idx: "take step (drop lat [0 ..< n]) = map (\<lambda>i. lat + i) [0 ..< ?m]"
  proof (rule nth_equalityI)
    show "length (take step (drop lat [0 ..< n])) = length (map (\<lambda>i. lat + i) [0 ..< ?m])"
      by simp
  next
    fix i assume "i < length (take step (drop lat [0 ..< n]))"
    then have "i < step" "lat + i < n" by auto
    then show "take step (drop lat [0 ..< n]) ! i = map (\<lambda>i. lat + i) [0 ..< ?m] ! i"
      by simp
  qed
  have lhs: "quantile_time q (isel_latitude lat step d)
      = map (\<lambda>i. map (\<lambda>j. nanquantile q (map (\<lambda>g. take step (drop lat g) ! i ! j) d))
                       [0 ..< length (take step (drop lat g0) ! i)]) [0 ..< ?m]"
    unfolding d quantile_time_def isel_latitude_def
    by (simp add: n comp_def min.commute del: upt_Suc)
  also have "\<dots> = map (\<lambda>i. ?F (lat + i)) [0 ..< ?m]"
  proof (rule map_cong [OF refl])
    fix i assume "i \<in> set [0 ..< ?m]"
    then have i: "i < step" "lat + i < n" by auto
    have "take step (drop lat g) ! i = g ! (lat + i)" if "g \<in> set d" for g
      using i assms(2) [OF that] by simp
    moreover have "g0 \<in> set d" by (simp add: d)
    ultimately show "map (\<lambda>j. nanquantile q (map (\<lambda>g. take step (drop lat g) ! i ! j) d))
                       [0 ..< length (take step (drop lat g0) ! i)] = ?F (lat + i)"
      by (simp cong: map_cong)
  qed
  also have "\<dots> = map ?F (map (\<lambda>i. lat + i) [0 ..< ?m])"
    by (simp add: comp_def)
  finally show ?thesis unfolding rhs idx .
qed

lemma insort_f64_Fin: "insort_f64 (Fin x) (map Fin ys) = map Fin (insort x ys)"
  by (induction ys) simp_all

lemma sort_f64_Fin: "sort_f64 (map Fin xs) = map Fin (sort xs)"
  by (induction xs) (simp_all add: sort_f64_def insort_f64_Fin sort_key_def)

lemma lerp_Fin: "lerp (Fin a) (Fin b) t = Fin ((1 - t) * a + t * b)"
  by (simp add: lerp_def f64_sub_def Let_def algebra_simps)

lemma filter_nan_Fin: "filter (\<lambda>x. \<not> isnan x) (map Fin xs) = map Fin xs"
  by (induction xs) (simp_all add: isnan_def)

lemma nanquantile_Fin:
  assumes "xs \<noteq> []" "0 \<le> q" "q \<le> 1"
  shows "nanquantile q (map Fin xs) = Fin (percentile_linear q xs)"
proof -
  let ?n = "length xs"
  let ?h = "q * real (?n - 1)"
  let ?lo = "nat \<lfloor>?h\<rfloor>"
  let ?s = "sort xs"
  have n: "0 < ?n" using assms(1) by simp
  have h0: "0 \<le> ?h" using assms(2) by simp
  have h1: "?h \<le> real (?n - 1)"
    using assms(3) mult_right_mono [of q 1 "real (?n - 1)"] by simp
  have fl0: "0 \<le> \<lfloor>?h\<rfloor>" using h0 by simp
  have "\<lfloor>?h\<rfloor> \<le> int (?n - 1)" using h1 by (simp add: floor_le_iff)
  then have lo: "?lo \<le> ?n - 1" using fl0 by linarith
  have rlo: "real ?lo = real_of_int \<lfloor>?h\<rfloor>" using fl0 by simp
  let ?g = "?h - real_of_int \<lfloor>?h\<rfloor>"
  have nq: "nanquantile q (map Fin xs)
            = lerp (Fin (?s ! ?lo)) (Fin (?s ! min (?lo + 1) (?n - 1))) ?g"
  proof -
    have arr: "sort_f64 (filter (\<lambda>x. \<not> isnan x) (map Fin xs)) = map Fin ?s"
      by (simp only: filter_nan_Fin sort_f64_Fin)
    have len: "length (map Fin ?s) = ?n" by simp
    have i1: "?lo < length ?s" and i2: "min (?lo + 1) (?n - 1) < length ?s"
      unfolding length_sort using n lo by linarith+
    have "nanquantile q (map Fin xs)
          = lerp (map Fin ?s ! ?lo) (map Fin ?s ! min (?lo + 1) (?n - 1)) (?h - real ?lo)"
    proof -
      from n have "(length xs = 0) = False" by simp
      then show ?thesis
        unfolding nanquantile_def arr Let_def len by (simp only: if_False)
    qed
    then show ?thesis
      unfolding nth_map [OF i1] nth_map [OF i2] rlo .
  qed
  show ?thesis
  proof (cases "?g = 0")
    case True
    then have "\<lceil>?h\<rceil> = \<lfloor>?h\<rfloor>"
      by (metis ceiling_of_int eq_iff_diff_eq_0)
    with True show ?thesis
      unfolding nq lerp_Fin by (simp add: percentile_linear_def Let_def)
  next
    case False
    then have ni: "?h \<noteq> real_of_int \<lfloor>?h\<rfloor>" by simp
    then have ce: "\<lceil>?h\<rceil> = \<lfloor>?h\<rfloor> + 1"
      by (simp add: ceiling_altdef)
    have "?h \<noteq> real (?n - 1)"
    proof
      assume e: "?h = real (?n - 1)"
      have "real_of_int \<lfloor>real (?n - 1)\<rfloor> = real (?n - 1)" by simp
      with ni show False unfolding e by simp
    qed
    with h1 have "?h < real (?n - 1)" by simp
    then have "\<lfloor>?h\<rfloor> < int (?n - 1)" by (simp only: floor_less_iff of_int_of_nat_eq)
    then have "?lo + 1 \<le> ?n - 1" using fl0 by linarith
    then have "min (?lo + 1) (?n - 1) = ?lo + 1" by (rule min_absorb1)
    moreover have "nat (\<lfloor>?h\<rfloor> + 1) = ?lo + 1" using fl0 by linarith
    ultimately have mn: "min (?lo + 1) (?n - 1) = nat \<lceil>?h\<rceil>"
      unfolding ce by (rule trans [OF _ sym])
    show ?thesis
      unfolding nq lerp_Fin mn by (simp add: percentile_linear_def Let_def)
  qed
qed

lemma archive_files:
  assumes "era5_archive nlon files years" "y \<in> set years"
  shows "\<exists>d. files y = Some d \<and> d \<noteq> [] \<and> list_all (era5_grid nlon) d"
proof -
  from assms have "case files y of None \<Rightarrow> False | Some d \<Rightarrow> d \<noteq> [] \<and> list_all (era5_grid nlon) d"
    by (simp add: era5_archive_def list_all_iff)
  then show ?thesis by (cases "files y") simp_all
qed

lemma full_series_grid:
  assumes "era5_archive nlon files years" "g \<in> set (full_series files years)"
  shows "length g = 720" "list_all (\<lambda>row. length row = nlon) g"
proof -
  from assms(2) obtain y where y: "y \<in> set years"
    and g: "g \<in> set (case files y of None \<Rightarrow> [] | Some d \<Rightarrow> d)"
    by (auto simp: full_series_def)
  from archive_files [OF assms(1) y] obtain d
    where d: "files y = Some d" "list_all (era5_grid nlon) d" by blast
  from g have "g \<in> set d" by (simp add: d(1))
  with d(2) have "era5_grid nlon g" by (simp add: list_all_iff)
  then show "length g = 720" "list_all (\<lambda>row. length row = nlon) g"
    by (simp_all add: era5_grid_def)
qed

lemma full_series_nonempty:
  assumes "era5_archive nlon files years" "years \<noteq> []"
  shows "full_series files years \<noteq> []"
proof -
  from assms(2) obtain y ys where ys: "years = y # ys" by (cases years) auto
  then have "y \<in> set years" by simp
  from archive_files [OF assms(1) this] obtain d
    where d: "files y = Some d" "d \<noteq> []" by blast
  then show ?thesis by (simp add: full_series_def ys)
qed

lemma p95_band_slice:
  assumes "era5_archive nlon files years" "years \<noteq> []"
  shows "p95_band files years step lat
         = Inr (take step (drop lat (single_pass_p95 files years)))"
proof -
  let ?the = "\<lambda>y. case files y of None \<Rightarrow> [] | Some d \<Rightarrow> d"
  have "load_band files lat step y = Inr (isel_latitude lat step (?the y))"
    if "y \<in> set years" for y
  proof -
    from archive_files [OF assms(1) that] obtain d where "files y = Some d" by blast
    then show ?thesis by (simp add: load_band_def)
  qed
  then have loaded: "map_err (load_band files lat step) years
                     = Inr (map (\<lambda>y. isel_latitude lat step (?the y)) years)"
    by (rule map_err_Inr)
  have cat: "concat (map (\<lambda>y. isel_latitude lat step (?the y)) years)
             = isel_latitude lat step (full_series files years)"
    by (simp add: isel_latitude_def full_series_def map_concat comp_def)
  have "quantile_time q (isel_latitude lat step (full_series files years))
        = take step (drop lat (quantile_time q (full_series files years)))" for q
    by (rule quantile_time_isel [OF full_series_nonempty [OF assms]])
       (rule full_series_grid(1) [OF assms(1)])
  then show ?thesis
    using assms(2) by (simp add: p95_band_def loaded concat_time_def cat single_pass_p95_def)
qed

lemma single_pass_shape:
  assumes "era5_archive nlon files years" "years \<noteq> []"
  shows "length (single_pass_p95 files years) = 720"
    and "i < 720 \<Longrightarrow> j < nlon \<Longrightarrow>
         single_pass_p95 files years ! i ! j
         = nanquantile (95 / 100) (cell_values (full_series files years) i j)"
proof -
  obtain g0 rest where d: "full_series files years = g0 # rest"
    using full_series_nonempty [OF assms] by (cases "full_series files years") auto
  have g0: "length g0 = 720" "list_all (\<lambda>row. length row = nlon) g0"
    using full_series_grid [OF assms(1), of g0] by (simp_all add: d)
  show "length (single_pass_p95 files years) = 720"
    by (simp add: single_pass_p95_def quantile_time_def d g0)
  assume ij: "i < 720" "j < nlon"
  then have "length (g0 ! i) = nlon" using g0 by (simp add: list_all_length)
  with ij show "single_pass_p95 files years ! i ! j
         = nanquantile (95 / 100) (cell_values (full_series files years) i j)"
    unfolding single_pass_p95_def quantile_time_def cell_values_def d
    by (simp add: g0 del: upt_Suc)
qed

lemma banded_eq_single_pass:
  assumes "0 < step" "years \<noteq> []" "era5_archive nlon files years"
  shows "calculate_historical_percentiles files years step
         = Inr ((hd years, last years), single_pass_p95 files years)"
proof -
  define s where "s = nat step"
  define m where "m = nat ((720 + step - 1) div step)"
  define r where "r = single_pass_p95 files years"
  define lats where "lats = map (\<lambda>k. k * s) [0 ..< m]"
  have lat_range: "lat_range step = Inr lats"
    using assms(1) by (simp add: lat_range_def lats_def s_def m_def)
  have bands: "map_err (p95_band files years s) lats
               = Inr (map (\<lambda>lat. take s (drop lat r)) lats)"
    unfolding r_def by (rule map_err_Inr) (rule p95_band_slice [OF assms(3,2)])
  have "concat (map (\<lambda>lat. take s (drop lat r)) lats) = take (m * s) r"
    using concat_bands [of s r m] by (simp add: comp_def lats_def)
  also have "\<dots> = r"
    using bands_cover(1) [OF assms(1)] single_pass_shape(1) [OF assms(3,2)]
    by (simp add: s_def m_def r_def)
  finally have cat: "concat (map (\<lambda>lat. take s (drop lat r)) lats) = r" .
  have "0 < m" using bands_cover(2) [OF assms(1)] by (simp only: m_def)
  then have ne: "lats \<noteq> []" by (simp add: lats_def)
  have "calculate_historical_percentiles files years step
        = (case map_err (p95_band files years s) lats of
             Inl e \<Rightarrow> Inl e
           | Inr p95_bands \<Rightarrow>
               (case concat_latitude p95_bands of
                  Inl e \<Rightarrow> Inl e
                | Inr p95_final \<Rightarrow>
                    if years = [] then Inl IndexError
                    else Inr ((hd years, last years), p95_final)))"
    unfolding calculate_historical_percentiles_def lat_range s_def by simp
  also have "\<dots> = Inr ((hd years, last years), r)"
    unfolding bands using ne assms(2) by (simp add: concat_latitude_def cat)
  finally show ?thesis unfolding r_def .
qed

text \<open>
  Claim C1. On an archive of the 720-latitude grid, for a non-empty list of reference
  years and a positive chunk size, the banded computation returns the field of the
  single pass without bands; two positive chunk sizes give the same result; and a cell
  whose series is finite holds the 95th percentile of its whole multi-year series, by
  linear interpolation between order statistics.
\<close>

theorem banding_has_no_effect:
  assumes "0 < step" "years \<noteq> []" "era5_archive nlon files years"
  shows "calculate_historical_percentiles files years step
           = Inr ((hd years, last years), single_pass_p95 files years)
         \<and> (\<forall>step'. 0 < step' \<longrightarrow>
               calculate_historical_percentiles files years step'
               = calculate_historical_percentiles files years step)
         \<and> (\<forall>i j xs. i < 720 \<and> j < nlon
               \<and> cell_values (full_series files years) i j = map Fin xs
               \<longrightarrow> single_pass_p95 files years ! i ! j = Fin (percentile_linear (95 / 100) xs))"
proof (intro conjI allI impI)
  show "calculate_historical_percentiles files years step
           = Inr ((hd years, last years), single_pass_p95 files years)"
    by (rule banded_eq_single_pass [OF assms])
  then show "calculate_historical_percentiles files years step'
               = calculate_historical_percentiles files years step" if "0 < step'" for step'
    using banded_eq_single_pass [OF that assms(2,3)] by simp
next
  fix i j xs
  assume h: "i < 720 \<and> j < nlon \<and> cell_values (full_series files years) i j = map Fin xs"
  have "length (cell_values (full_series files years) i j) \<noteq> 0"
    using full_series_nonempty [OF assms(3,2)] by (simp add: cell_values_def)
  with h have "xs \<noteq> []" by auto
  then have "nanquantile (95 / 100) (map Fin xs) = Fin (percentile_linear (95 / 100) xs)"
    by (rule nanquantile_Fin) simp_all
  with h show "single_pass_p95 files years ! i ! j = Fin (percentile_linear (95 / 100) xs)"
    using single_pass_shape(2) [OF assms(3,2), of i j] by simp
qed

lemma example_archive: "era5_archive 1 example_files [1995, 1996]"
  by (simp add: era5_archive_def example_files_def era5_grid_def list_all_iff)

theorem banding_has_no_effect_witness:
  "(0::int) < 30 \<and> [1995, 1996] \<noteq> ([]::int list) \<and> era5_archive 1 example_files [1995, 1996]
   \<and> calculate_historical_percentiles example_files [1995, 1996] 30
       = Inr ((1995, 1996), single_pass_p95 example_files [1995, 1996])
   \<and> calculate_historical_percentiles example_files [1995, 1996] 7
       = calculate_historical_percentiles example_files [1995, 1996] 30
   \<and> single_pass_p95 example_files [1995, 1996] ! 0 ! 0 = Fin 29"
proof -
  have p: "(0::int) < 30" and y: "[1995, 1996] \<noteq> ([]::int list)" by simp_all
  note t = banding_has_no_effect [OF p y example_archive]
  have c: "cell_values (full_series example_files [1995, 1996]) 0 0 = map Fin [10, 20, 30]"
    by (simp add: cell_values_def full_series_def example_files_def)
  have v: "percentile_linear (95 / 100) [10, 20, 30] = 29"
    by (simp add: percentile_linear_def)
  from t have "single_pass_p95 example_files [1995, 1996] ! 0 ! 0
               = Fin (percentile_linear (95 / 100) [10, 20, 30])"
    using c by simp
  with v have "single_pass_p95 example_files [1995, 1996] ! 0 ! 0 = Fin 29" by simp
  moreover from t have "calculate_historical_percentiles example_files [1995, 1996] 7
       = calculate_historical_percentiles example_files [1995, 1996] 30" by simp
  moreover from t have "calculate_historical_percentiles example_files [1995, 1996] 30
       = Inr ((1995, 1996), single_pass_p95 example_files [1995, 1996])" by simp
  ultimately show ?thesis using example_archive by simp
qed


section \<open>Properties of the region aggregation\<close>

lemma set_insort_f64: "set (insort_f64 x xs) = insert x (set xs)"
  by (induction xs) auto

lemma distinct_insort_f64: "distinct (insort_f64 x xs) = (x \<notin> set xs \<and> distinct xs)"
  by (induction xs) (auto simp: set_insort_f64)

lemma set_sort_f64: "set (sort_f64 xs) = set xs"
  by (induction xs) (simp_all add: sort_f64_def set_insort_f64)

lemma distinct_sort_f64: "distinct (sort_f64 xs) = distinct xs"
  by (induction xs) (simp_all add: sort_f64_def distinct_insort_f64 set_sort_f64 [unfolded sort_f64_def])

lemma same_shape_concat:
  assumes "same_shape g h"
  shows "length (concat g) = length (concat h)"
  using assms by (simp add: same_shape_def length_concat)

lemma cells_regions:
  assumes "co_registered e p m"
  shows "map fst (cells e p m) = concat m"
  using same_shape_concat [of e m] same_shape_concat [of p m] assms
  by (simp add: cells_def co_registered_def)

lemma region_cells_filter:
  assumes "\<not> isnan k"
  shows "filter (\<lambda>(r, t95, population). r = k) (filter (\<lambda>(r, t95, population). \<not> isnan r) cs)
         = region_cells cs k"
  unfolding region_cells_def filter_filter
  by (rule filter_cong [OF refl]) (use assms in auto)

lemma get_region_values_rows:
  assumes "co_registered e p m" "search_day_r file = Some name"
    and "\<exists>r \<in> set (concat m). \<not> isnan r"
  shows "get_region_values e p m file year
         = Inr \<lparr>column_label = str_int year @ ''_'' @ name,
                region_rows = map (\<lambda>k. (k, weighted_mean (region_cells (cells e p m) k)))
                                (sort_f64 (remdups (filter (\<lambda>r. \<not> isnan r) (concat m))))\<rparr>"
proof -
  define df where "df = filter (\<lambda>(r, t95, population). \<not> isnan r) (cells e p m)"
  have len: "length (concat e) = length (concat m)" "length (concat p) = length (concat m)"
    using assms(1) by (simp_all add: co_registered_def same_shape_concat)
  have keys: "map fst df = filter (\<lambda>r. \<not> isnan r) (concat m)"
    unfolding df_def cells_regions [OF assms(1), symmetric]
    by (simp add: filter_map comp_def case_prod_unfold)
  have ne: "df \<noteq> []"
  proof
    assume "df = []"
    then have "filter (\<lambda>r. \<not> isnan r) (concat m) = []" using keys by simp
    with assms(3) show False by (auto simp: filter_empty_conv)
  qed
  have rows: "map (\<lambda>k. (k, weighted_mean (filter (\<lambda>(r, t95, population). r = k) df)))
                (sort_f64 (remdups (map fst df)))
              = map (\<lambda>k. (k, weighted_mean (region_cells (cells e p m) k)))
                  (sort_f64 (remdups (map fst df)))"
  proof (rule map_cong [OF refl])
    fix k assume "k \<in> set (sort_f64 (remdups (map fst df)))"
    then have "\<not> isnan k" by (auto simp: set_sort_f64 keys)
    from region_cells_filter [OF this]
    show "(k, weighted_mean (filter (\<lambda>(r, t95, population). r = k) df))
               = (k, weighted_mean (region_cells (cells e p m) k))"
      unfolding df_def by simp
  qed
  have "get_region_values e p m file year
        = Inr \<lparr>column_label = str_int year @ ''_'' @ name,
               region_rows = map (\<lambda>k. (k, weighted_mean (filter (\<lambda>(r, t95, population). r = k) df)))
                               (sort_f64 (remdups (map fst df)))\<rparr>"
    unfolding get_region_values_def assms(2) Let_def
    using ne len by (simp add: df_def cells_def)
  then show ?thesis unfolding rows unfolding keys .
qed

lemma nansum_Fin:
  assumes "list_all is_fin xs"
  shows "nansum xs = Fin (sum_list (map fin_val xs))"
proof -
  have "foldl f64_add (Fin a) (filter (\<lambda>x. \<not> isnan x) xs) = Fin (a + sum_list (map fin_val xs))"
    if "list_all is_fin xs" for a
    using that
  proof (induction xs arbitrary: a)
    case Nil
    show ?case by simp
  next
    case (Cons x xs)
    then obtain b where "x = Fin b" by (cases x) simp_all
    with Cons show ?case by (simp add: isnan_def add.assoc)
  qed
  from this [OF assms, of 0] show ?thesis by (simp add: nansum_def)
qed

lemma weighted_mean_finite:
  assumes "finite_rows cs"
  shows "weighted_mean cs = f64_div (Fin (weighted_sum cs)) (Fin (total_population cs))"
proof -
  have a: "list_all is_fin (map (\<lambda>(r, t95, population). f64_mul t95 population) cs)"
    using assms unfolding finite_rows_def list_all_iff
    by (auto elim!: is_fin.elims)
  have b: "list_all is_fin (map (\<lambda>(r, t95, population). population) cs)"
    using assms unfolding finite_rows_def list_all_iff by auto
  have c: "map fin_val (map (\<lambda>(r, t95, population). f64_mul t95 population) cs)
           = map (\<lambda>(r, t95, population). fin_val t95 * fin_val population) cs"
    using assms unfolding finite_rows_def list_all_iff
    by (auto elim!: is_fin.elims)
  show ?thesis
    unfolding weighted_mean_def nansum_Fin [OF a] nansum_Fin [OF b] c weighted_sum_def
      total_population_def
    by (simp add: comp_def case_prod_unfold)
qed

lemma str_int_2025: "str_int 2025 = ''2025''"
  by code_simp

lemma example_name_model: "search_day_r example_name = Some ''ACCESS-CM2_ssp126''"
  by code_simp

text \<open>
  Claim C2. For co-registered fields with at least one cell in a region,
  \<^verbatim>\<open>get_region_values\<close> returns one row per region identifier that is not NaN (the
  cells without a region are dropped, no other cell is). The value of a region is the
  weighted mean over all the cells of that region, and when these cells hold finite
  numbers and a total population that is not zero it is
  \<open>sum (exceedance * population) / sum population\<close>. The example with populations 10
  and 30 and counts 5 and 15 gives 12.5 (see the witness).
\<close>

theorem get_region_values_weighted_mean:
  assumes "co_registered e p m" "search_day_r file = Some name"
    and "\<exists>r \<in> set (concat m). \<not> isnan r"
  shows "\<exists>t. get_region_values e p m file year = Inr t
           \<and> column_label t = str_int year @ ''_'' @ name
           \<and> distinct (map fst (region_rows t))
           \<and> set (map fst (region_rows t)) = {r \<in> set (concat m). \<not> isnan r}
           \<and> (\<forall>(k, v) \<in> set (region_rows t).
                 v = weighted_mean (region_cells (cells e p m) k)
                 \<and> (finite_rows (region_cells (cells e p m) k)
                      \<and> total_population (region_cells (cells e p m) k) \<noteq> 0
                    \<longrightarrow> v = Fin (weighted_sum (region_cells (cells e p m) k)
                                     / total_population (region_cells (cells e p m) k))))"
proof -
  let ?keys = "sort_f64 (remdups (filter (\<lambda>r. \<not> isnan r) (concat m)))"
  let ?t = "\<lparr>column_label = str_int year @ ''_'' @ name,
             region_rows = map (\<lambda>k. (k, weighted_mean (region_cells (cells e p m) k))) ?keys\<rparr>"
  have r: "get_region_values e p m file year = Inr ?t"
    by (rule get_region_values_rows [OF assms])
  have k: "map fst (region_rows ?t) = ?keys" by (simp add: comp_def)
  have d: "distinct (map fst (region_rows ?t))"
    unfolding k by (simp add: distinct_sort_f64)
  have s: "set (map fst (region_rows ?t)) = {r \<in> set (concat m). \<not> isnan r}"
    unfolding k by (auto simp: set_sort_f64)
  have v: "v = weighted_mean (region_cells (cells e p m) k)
           \<and> (finite_rows (region_cells (cells e p m) k)
                \<and> total_population (region_cells (cells e p m) k) \<noteq> 0
              \<longrightarrow> v = Fin (weighted_sum (region_cells (cells e p m) k)
                               / total_population (region_cells (cells e p m) k)))"
    if "(k, v) \<in> set (region_rows ?t)" for k v
  proof -
    from that have "v = weighted_mean (region_cells (cells e p m) k)" by auto
    then show ?thesis by (simp add: weighted_mean_finite)
  qed
  have vv: "\<forall>(k, v) \<in> set (region_rows ?t).
               v = weighted_mean (region_cells (cells e p m) k)
               \<and> (finite_rows (region_cells (cells e p m) k)
                    \<and> total_population (region_cells (cells e p m) k) \<noteq> 0
                  \<longrightarrow> v = Fin (weighted_sum (region_cells (cells e p m) k)
                                   / total_population (region_cells (cells e p m) k)))"
  proof (rule ballI)
    fix kv assume kv: "kv \<in> set (region_rows ?t)"
    obtain k v where e: "kv = (k, v)" by (cases kv)
    from v [OF kv [unfolded e]]
    show "case kv of (k, v) \<Rightarrow>
               v = weighted_mean (region_cells (cells e p m) k)
               \<and> (finite_rows (region_cells (cells e p m) k)
                    \<and> total_population (region_cells (cells e p m) k) \<noteq> 0
                  \<longrightarrow> v = Fin (weighted_sum (region_cells (cells e p m) k)
                                   / total_population (region_cells (cells e p m) k)))"
      unfolding e prod.case .
  qed
  have l: "column_label ?t = str_int year @ ''_'' @ name" by simp
  show ?thesis
    by (rule exI [of _ ?t]) (intro conjI r l d s vv)
qed

theorem get_region_values_weighted_mean_witness:
  "co_registered example_excedance example_pop example_mask
   \<and> search_day_r example_name = Some ''ACCESS-CM2_ssp126''
   \<and> (\<exists>r \<in> set (concat example_mask). \<not> isnan r)
   \<and> get_region_values example_excedance example_pop example_mask example_name 2025
       = Inr \<lparr>column_label = ''2025_ACCESS-CM2_ssp126'', region_rows = [(Fin 1, Fin (25 / 2))]\<rparr>"
proof -
  have c: "co_registered example_excedance example_pop example_mask"
    by (simp add: co_registered_def same_shape_def example_excedance_def example_pop_def
        example_mask_def)
  have n: "\<exists>r \<in> set (concat example_mask). \<not> isnan r"
    by (simp add: example_mask_def isnan_def)
  let ?cs = "region_cells (cells example_excedance example_pop example_mask) (Fin 1)"
  have cs: "?cs = [(Fin 1, Fin 5, Fin 10), (Fin 1, Fin 15, Fin 30)]"
    by (simp add: region_cells_def cells_def example_excedance_def example_pop_def
        example_mask_def)
  have f: "finite_rows ?cs" and tp: "total_population ?cs = 40" and ws: "weighted_sum ?cs = 500"
    unfolding cs by (simp_all add: finite_rows_def total_population_def weighted_sum_def)
  from get_region_values_weighted_mean [OF c example_name_model n, of 2025]
  obtain t where t: "get_region_values example_excedance example_pop example_mask example_name 2025
                     = Inr t"
    and l: "column_label t = str_int 2025 @ ''_'' @ ''ACCESS-CM2_ssp126''"
    and ks: "set (map fst (region_rows t)) = {r \<in> set (concat example_mask). \<not> isnan r}"
    and d: "distinct (map fst (region_rows t))"
    and vs: "\<forall>(k, v) \<in> set (region_rows t).
               v = weighted_mean (region_cells (cells example_excedance example_pop example_mask) k)
               \<and> (finite_rows (region_cells (cells example_excedance example_pop example_mask) k)
                    \<and> total_population (region_cells (cells example_excedance example_pop example_mask) k) \<noteq> 0
                  \<longrightarrow> v = Fin (weighted_sum (region_cells (cells example_excedance example_pop example_mask) k)
                                   / total_population (region_cells (cells example_excedance example_pop example_mask) k)))"
    by blast
  have "set (map fst (region_rows t)) = {Fin 1}"
    unfolding ks by (auto simp: example_mask_def isnan_def)
  with d obtain v where rows: "region_rows t = [(Fin 1, v)]"
    by (cases "region_rows t"; cases "tl (region_rows t)") (auto split: if_splits)
  with vs f tp ws have "v = Fin (500 / 40)" by auto
  then have "t = \<lparr>column_label = ''2025_ACCESS-CM2_ssp126'', region_rows = [(Fin 1, Fin (25 / 2))]\<rparr>"
    using rows l by (simp add: str_int_2025)
  with t c n example_name_model show ?thesis by simp
qed

lemma empty_region_co_registered:
  "co_registered empty_region_excedance empty_region_pop empty_region_mask"
  by (simp add: co_registered_def same_shape_def empty_region_excedance_def empty_region_pop_def
      empty_region_mask_def)

text \<open>
  Claim C4 says that a region whose total population is zero is handled explicitly.
  The function has no such case: on the mask below, region 2 has the populations 0 and
  0, and the function returns normally, with NaN as the value of the region.
\<close>

theorem zero_population_region_counterexample:
  "total_population (region_cells (cells empty_region_excedance empty_region_pop empty_region_mask)
                       (Fin 2)) = 0
   \<and> get_region_values empty_region_excedance empty_region_pop empty_region_mask example_name 2025
       = Inr \<lparr>column_label = ''2025_ACCESS-CM2_ssp126'',
              region_rows = [(Fin 1, Fin (25 / 2)), (Fin 2, NaN)]\<rparr>"
proof -
  have n: "\<exists>r \<in> set (concat empty_region_mask). \<not> isnan r"
    by (simp add: empty_region_mask_def isnan_def)
  have k: "sort_f64 (remdups (filter (\<lambda>r. \<not> isnan r) (concat empty_region_mask))) = [Fin 1, Fin 2]"
    by (simp add: empty_region_mask_def isnan_def sort_f64_def)
  have c1: "region_cells (cells empty_region_excedance empty_region_pop empty_region_mask) (Fin 1)
            = [(Fin 1, Fin 5, Fin 10), (Fin 1, Fin 15, Fin 30)]"
    and c2: "region_cells (cells empty_region_excedance empty_region_pop empty_region_mask) (Fin 2)
            = [(Fin 2, Fin 3, Fin 0), (Fin 2, Fin 4, Fin 0)]"
    by (simp_all add: region_cells_def cells_def empty_region_excedance_def empty_region_pop_def
        empty_region_mask_def)
  have w1: "weighted_mean [(Fin 1, Fin 5, Fin 10), (Fin 1, Fin 15, Fin 30)] = Fin (25 / 2)"
    and w2: "weighted_mean [(Fin 2, Fin 3, Fin 0), (Fin 2, Fin 4, Fin 0)] = NaN"
    by (simp_all add: weighted_mean_def nansum_def isnan_def)
  have "total_population [(Fin 2, Fin 3, Fin 0), (Fin 2, Fin 4, Fin 0)] = 0"
    by (simp add: total_population_def)
  then show ?thesis
    unfolding get_region_values_rows [OF empty_region_co_registered example_name_model n] k
    by (simp add: c1 c2 w1 w2 str_int_2025)
qed

text \<open>
  Claim C4, amended. For a region whose cells hold finite numbers and whose total
  population is zero, \<^verbatim>\<open>get_region_values\<close> raises nothing and returns the result of
  the floating-point division by zero as the value of the region: NaN when the weighted
  sum is zero as well (as it is when every population is zero), an infinity otherwise.
\<close>

theorem zero_population_region_is_nan:
  assumes "co_registered e p m" "search_day_r file = Some name"
    and "k \<in> set (concat m)" "\<not> isnan k"
    and "finite_rows (region_cells (cells e p m) k)"
    and "total_population (region_cells (cells e p m) k) = 0"
  shows "\<exists>t. get_region_values e p m file year = Inr t
           \<and> (k, if weighted_sum (region_cells (cells e p m) k) = 0 then NaN
                  else if weighted_sum (region_cells (cells e p m) k) > 0 then PInf else NInf)
               \<in> set (region_rows t)"
proof -
  let ?keys = "sort_f64 (remdups (filter (\<lambda>r. \<not> isnan r) (concat m)))"
  let ?t = "\<lparr>column_label = str_int year @ ''_'' @ name,
             region_rows = map (\<lambda>k. (k, weighted_mean (region_cells (cells e p m) k))) ?keys\<rparr>"
  have n: "\<exists>r \<in> set (concat m). \<not> isnan r" using assms(3,4) by blast
  have r: "get_region_values e p m file year = Inr ?t"
    by (rule get_region_values_rows [OF assms(1,2) n])
  have "k \<in> set ?keys" using assms(3,4) by (simp add: set_sort_f64)
  then have "(k, weighted_mean (region_cells (cells e p m) k)) \<in> set (region_rows ?t)"
    by simp
  moreover have "weighted_mean (region_cells (cells e p m) k)
                 = (if weighted_sum (region_cells (cells e p m) k) = 0 then NaN
                    else if weighted_sum (region_cells (cells e p m) k) > 0 then PInf else NInf)"
    unfolding weighted_mean_finite [OF assms(5)] assms(6) by simp
  ultimately show ?thesis using r by (intro exI [of _ ?t]) simp
qed

theorem zero_population_region_is_nan_witness:
  "co_registered empty_region_excedance empty_region_pop empty_region_mask
   \<and> search_day_r example_name = Some ''ACCESS-CM2_ssp126''
   \<and> Fin 2 \<in> set (concat empty_region_mask) \<and> \<not> isnan (Fin 2)
   \<and> finite_rows (region_cells (cells empty_region_excedance empty_region_pop empty_region_mask) (Fin 2))
   \<and> total_population (region_cells (cells empty_region_excedance empty_region_pop empty_region_mask) (Fin 2)) = 0
   \<and> (\<exists>t. get_region_values empty_region_excedance empty_region_pop empty_region_mask example_name 2025
             = Inr t \<and> (Fin 2, NaN) \<in> set (region_rows t))"
proof -
  let ?cs = "region_cells (cells empty_region_excedance empty_region_pop empty_region_mask) (Fin 2)"
  have cs: "?cs = [(Fin 2, Fin 3, Fin 0), (Fin 2, Fin 4, Fin 0)]"
    by (simp add: region_cells_def cells_def empty_region_excedance_def empty_region_pop_def
        empty_region_mask_def)
  have k: "Fin 2 \<in> set (concat empty_region_mask)" and nn: "\<not> isnan (Fin 2)"
    by (simp_all add: empty_region_mask_def isnan_def)
  have f: "finite_rows ?cs" and tp: "total_population ?cs = 0" and ws: "weighted_sum ?cs = 0"
    unfolding cs by (simp_all add: finite_rows_def total_population_def weighted_sum_def)
  from zero_population_region_is_nan [OF empty_region_co_registered example_name_model k nn f tp,
      of 2025]
  have "\<exists>t. get_region_values empty_region_excedance empty_region_pop empty_region_mask
               example_name 2025 = Inr t \<and> (Fin 2, NaN) \<in> set (region_rows t)"
    unfolding ws by simp
  with empty_region_co_registered example_name_model k nn f tp show ?thesis by blast
qed


section \<open>Properties of the column labels\<close>






















section \<open>Properties of the loop over the years\<close>

lemma index_years_filter:
  "index_years inp file (start, stop) years fd
   = index_years inp file (start, stop) (filter (\<lambda>y. start \<le> y \<and> y \<le> stop) years) fd"
proof (induction years arbitrary: fd)
  case Nil
  show ?case by simp
next
  case (Cons y ys)
  let ?P = "\<lambda>y. start \<le> y \<and> y \<le> stop"
  have ih: "index_years inp file (start, stop) ys
            = index_years inp file (start, stop) (filter ?P ys)"
    by (rule ext) (rule Cons.IH)
  show ?case
  proof (cases "?P y")
    case True
    define F where "F k = (case get_region_values
                (map (map (\<lambda>c. Fin (real_of_int c)))
                  (excedance_count (sel_year (inp_tas_max inp) y) (inp_p95_hist inp)))
                (inp_population inp y) (inp_regions inp y) file y of
              Inl e \<Rightarrow> Inl e
            | Inr final_regions \<Rightarrow>
                (case merge_outer fd final_regions of Inl e \<Rightarrow> Inl e | Inr merged \<Rightarrow> k merged))"
      for k :: "dataframe \<Rightarrow> py_error + dataframe"
    have step: "index_years inp file (start, stop) (y # zs) fd
                = F (index_years inp file (start, stop) zs)" for zs
      using True by (simp add: F_def Let_def)
    have "filter ?P (y # ys) = y # filter ?P ys" using True by simp
    then show ?thesis unfolding step by (simp only: step ih)
  next
    case False
    then have "index_years inp file (start, stop) (y # ys) fd
               = index_years inp file (start, stop) ys fd"
      and "filter ?P (y # ys) = filter ?P ys" by auto
    then show ?thesis by (simp only: ih)
  qed
qed

text \<open>
  Claim C8. For a file whose name carries its date range, and at least one requested
  year, none of them inside the range of the file, \<^verbatim>\<open>temperature_index\<close> raises nothing
  and returns the table it was given, unchanged. In general the loop treats only the
  requested years that fall inside the range of the file: the years outside have no
  effect on its result.
\<close>

theorem uncovered_file_is_skipped:
  assumes "covered_years file = Some (start, stop)" "years \<noteq> []"
    and "\<forall>y \<in> set years. \<not> (start \<le> y \<and> y \<le> stop)"
  shows "temperature_index years inp final_data file = Inr (final_data, last years)
         \<and> (\<forall>ys fd. index_years inp file (start, stop) ys fd
               = index_years inp file (start, stop) (filter (\<lambda>y. start \<le> y \<and> y \<le> stop) ys) fd)"
proof -
  have "filter (\<lambda>y. start \<le> y \<and> y \<le> stop) years = []"
    using assms(3) by (auto simp: filter_empty_conv)
  moreover have "index_years inp file (start, stop) years final_data
                 = index_years inp file (start, stop)
                     (filter (\<lambda>y. start \<le> y \<and> y \<le> stop) years) final_data"
    by (rule index_years_filter)
  ultimately have "index_years inp file (start, stop) years final_data = Inr final_data"
    by simp
  then have "temperature_index years inp final_data file = Inr (final_data, last years)"
    using assms(1,2) by (simp add: temperature_index_def)
  then show ?thesis using index_years_filter by blast
qed

lemma example_covered: "covered_years example_name = Some (2015, 2100)"
  by code_simp

theorem uncovered_file_is_skipped_witness:
  "covered_years example_name = Some (2015, 2100) \<and> [2010, 2110] \<noteq> ([]::int list)
   \<and> list_all (\<lambda>y. \<not> (2015 \<le> y \<and> y \<le> 2100)) [2010, 2110::int]
   \<and> temperature_index [2010, 2110] (example_inputs example_name) initial_models_data example_name
       = Inr (initial_models_data, 2110)"
proof -
  have y: "[2010, 2110] \<noteq> ([]::int list)"
    and n: "\<forall>y \<in> set [2010, 2110::int]. \<not> (2015 \<le> y \<and> y \<le> 2100)" by simp_all
  from uncovered_file_is_skipped [OF example_covered y n]
  have "temperature_index [2010, 2110] (example_inputs example_name) initial_models_data
          example_name = Inr (initial_models_data, 2110)" by simp
  with example_covered show ?thesis by simp
qed


section \<open>Properties of the summary table\<close>

lemma example_models_data:
  "all_files example_inputs [2025] [example_name] initial_models_data
   = Inr \<lparr>index_name = [], index_values = range_index 27,
           columns = [(''IMAGE_region'', map (\<lambda>i. Fin (real i)) [1 ..< 28]),
                      (''2025_ACCESS-CM2_ssp126'', Fin 3 # Fin 1 # replicate 25 NaN)]\<rparr>"
  by code_simp

lemma group_key_examples:
  "group_key ''IMAGE_region'' = ''nan_nan''"
  "group_key ''2025_ACCESS-CM2_ssp126'' = ''2025_ssp126''"
  by code_simp+

lemma example_df_mean:
  "group_columns nanmean ''_model-mean''
     \<lparr>index_name = [], index_values = range_index 27,
           columns = [(''IMAGE_region'', map (\<lambda>i. Fin (real i)) [1 ..< 28]),
                      (''2025_ACCESS-CM2_ssp126'', Fin 3 # Fin 1 # replicate 25 NaN)]\<rparr>
   = [(''nan_nan_model-mean'', map (\<lambda>i. Fin (real i)) [1 ..< 28]),
      (''2025_ssp126_model-mean'', Fin 3 # Fin 1 # replicate 25 NaN)]"
  by code_simp

lemma nanstd_single: "nanstd [v] = NaN"
  by (simp add: nanstd_def Let_def)

lemma row_wise_nanstd_single: "row_wise nanstd n [c] = replicate n NaN"
  by (simp add: row_wise_def nanstd_single case_prod_unfold map_replicate_const)

lemma example_df_std:
  "group_columns nanstd ''_model-std''
     \<lparr>index_name = [], index_values = range_index 27,
           columns = [(''IMAGE_region'', map (\<lambda>i. Fin (real i)) [1 ..< 28]),
                      (''2025_ACCESS-CM2_ssp126'', Fin 3 # Fin 1 # replicate 25 NaN)]\<rparr>
   = [(''nan_nan_model-std'', replicate 27 NaN), (''2025_ssp126_model-std'', replicate 27 NaN)]"
  by (simp add: group_columns_def unique_def group_key_examples row_wise_nanstd_single
      range_index_def)

lemma example_ids:
  "map_err f64_to_int (map (\<lambda>i. Fin (real i)) [1 ..< 28]) = Inr (map int [1 ..< 28])"
  by code_simp

lemma example_merge_names:
  "merge_names example_region_names (map int [1 ..< 28])
     [(''2025_ssp126_model-mean'', Fin 3 # Fin 1 # replicate 25 NaN),
      (''nan_nan_model-std'', replicate 27 NaN), (''2025_ssp126_model-std'', replicate 27 NaN)]
   = \<lparr>region_id = [1, 2], region_name = [''Canada'', ''USA''],
      summary_columns = [(''2025_ssp126_model-mean'', [Fin 3, Fin 1]),
                         (''nan_nan_model-std'', [NaN, NaN]),
                         (''2025_ssp126_model-std'', [NaN, NaN])]\<rparr>"
  by code_simp

lemma merge_names_labels:
  "map fst (summary_columns (merge_names image_names ids cols)) = map fst cols"
  by (simp add: merge_names_def Let_def comp_def case_prod_unfold)

lemma group_columns_labels:
  "map fst (group_columns f suffix md)
   = map (\<lambda>g. g @ suffix) (unique (map (\<lambda>(n, vs). group_key n) (columns md)))"
  by (simp add: group_columns_def comp_def)

text \<open>
  The summary step finds the region identifiers again as the mean of the pseudo-group
  \<^verbatim>\<open>nan_nan\<close> (the column \<^verbatim>\<open>IMAGE_region\<close>, which the pattern does not match) and
  makes that column the index. The standard deviation of the same pseudo-group is
  computed by the same loop and never removed: every table that the function returns
  has the column \<^verbatim>\<open>nan_nan_model-std\<close>.
\<close>

lemma nan_group_std_column_in_every_result:
  assumes "temperature_index_all_models inputs files image_names years = Inr t"
  shows "''nan_nan_model-std'' \<in> set (map fst (summary_columns t))"
proof -
  obtain md where a: "all_files inputs years files initial_models_data = Inr md"
    using assms
    by (cases "all_files inputs years files initial_models_data")
       (simp_all add: temperature_index_all_models_def)
  define cols where "cols = group_columns nanmean ''_model-mean'' md
                            @ group_columns nanstd ''_model-std'' md"
  from assms have r: "(case map_of cols ''nan_nan_model-mean'' of
            None \<Rightarrow> Inl KeyError
          | Some ids \<Rightarrow>
              (case map_err f64_to_int ids of
                 Inl e \<Rightarrow> Inl e
               | Inr int_ids \<Rightarrow>
                   Inr (merge_names image_names int_ids
                          (filter (\<lambda>(n, vs). n \<noteq> ''nan_nan_model-mean'') cols)))) = Inr t"
    unfolding cols_def temperature_index_all_models_def a Let_def by (simp only: sum.case)
  then obtain ids where l0: "map_of cols ''nan_nan_model-mean'' = Some ids"
    by (cases "map_of cols ''nan_nan_model-mean''") simp_all
  with r obtain int_ids where t0: "t = merge_names image_names int_ids
                    (filter (\<lambda>(n, vs). n \<noteq> ''nan_nan_model-mean'') cols)"
    by (cases "map_err f64_to_int ids") auto
  note l = l0 [unfolded cols_def] and t = t0 [unfolded cols_def]
  let ?groups = "unique (map (\<lambda>(n, vs). group_key n) (columns md))"
  from l have "''nan_nan_model-mean''
       \<in> set (map fst (group_columns nanmean ''_model-mean'' md))
         \<union> set (map fst (group_columns nanstd ''_model-std'' md))"
    by (auto dest!: map_of_SomeD intro: rev_image_eqI)
  then have "''nan_nan'' \<in> set ?groups"
  proof
    assume "''nan_nan_model-mean'' \<in> set (map fst (group_columns nanmean ''_model-mean'' md))"
    then obtain g where g: "g \<in> set ?groups" "g @ ''_model-mean'' = ''nan_nan'' @ ''_model-mean''"
      unfolding group_columns_labels by auto
    from g(2) have "g = ''nan_nan''" by (simp only: append_same_eq)
    with g(1) show ?thesis by simp
  next
    assume "''nan_nan_model-mean'' \<in> set (map fst (group_columns nanstd ''_model-std'' md))"
    then obtain g where "''nan_nan_model-mean'' = g @ ''_model-std''"
      unfolding group_columns_labels by auto
    then have "last ''nan_nan_model-mean'' = last (g @ ''_model-std'')" by simp
    then show ?thesis by simp
  qed
  then have "''nan_nan'' @ ''_model-std'' \<in> set (map fst (group_columns nanstd ''_model-std'' md))"
    unfolding group_columns_labels set_map by (rule imageI)
  then have "''nan_nan_model-std''
      \<in> set (map fst (filter (\<lambda>(n, vs). n \<noteq> ''nan_nan_model-mean'')
                        (group_columns nanmean ''_model-mean'' md
                         @ group_columns nanstd ''_model-std'' md)))"
    by (auto simp: case_prod_unfold intro!: rev_image_eqI)
  then show ?thesis unfolding t merge_names_labels .
qed

text \<open>
  Claim C6 says that the columns of the final table are exactly the mean and the
  standard deviation of every (year, scenario) group. On one file of the convention and
  the year 2025 the function returns the table below: indexed by the integer region
  identifiers and joined with the region names, with the two columns of the group
  \<open>2025_ssp126\<close>, and with the column \<^verbatim>\<open>nan_nan_model-std\<close> between them, which is
  none of the labels of the claim.
\<close>

theorem summary_keeps_nan_group_column:
  "temperature_index_all_models example_inputs [example_name] example_region_names [2025]
   = Inr \<lparr>region_id = [1, 2], region_name = [''Canada'', ''USA''],
          summary_columns = [(''2025_ssp126_model-mean'', [Fin 3, Fin 1]),
                             (''nan_nan_model-std'', [NaN, NaN]),
                             (''2025_ssp126_model-std'', [NaN, NaN])]\<rparr>
   \<and> expected_labels [(''2025'', ''ssp126'')]
       = {''2025_ssp126_model-mean'', ''2025_ssp126_model-std''}
   \<and> ''nan_nan_model-std'' \<notin> expected_labels [(''2025'', ''ssp126'')]"
proof -
  define md where "md = \<lparr>index_name = [], index_values = range_index 27,
           columns = [(''IMAGE_region'', map (\<lambda>i. Fin (real i)) [1 ..< 28]),
                      (''2025_ACCESS-CM2_ssp126'', Fin 3 # Fin 1 # replicate 25 NaN)]\<rparr>"
  define ids where "ids = map (\<lambda>i. Fin (real i)) [1 ..< 28]"
  define m1 where "m1 = (''2025_ssp126_model-mean'', Fin 3 # Fin 1 # replicate 25 NaN)"
  define s0 where "s0 = (''nan_nan_model-std'', replicate 27 NaN)"
  define s1 where "s1 = (''2025_ssp126_model-std'', replicate 27 NaN)"
  have a: "all_files example_inputs [2025] [example_name] initial_models_data = Inr md"
    unfolding md_def by (rule example_models_data)
  have dm: "group_columns nanmean ''_model-mean'' md = [(''nan_nan_model-mean'', ids), m1]"
    unfolding md_def ids_def m1_def by (rule example_df_mean)
  have ds: "group_columns nanstd ''_model-std'' md = [s0, s1]"
    unfolding md_def s0_def s1_def by (rule example_df_std)
  have i: "map_err f64_to_int ids = Inr (map int [1 ..< 28])"
    unfolding ids_def by (rule example_ids)
  have n: "fst m1 \<noteq> ''nan_nan_model-mean''" "fst s0 \<noteq> ''nan_nan_model-mean''"
    "fst s1 \<noteq> ''nan_nan_model-mean''"
    by (simp_all add: m1_def s0_def s1_def)
  have f: "filter (\<lambda>(n, vs). n \<noteq> ''nan_nan_model-mean'')
             ([(''nan_nan_model-mean'', ids), m1] @ [s0, s1]) = [m1, s0, s1]"
    using n by (simp add: case_prod_unfold)
  have l: "map_of ([(''nan_nan_model-mean'', ids), m1] @ [s0, s1]) ''nan_nan_model-mean''
           = Some ids"
    by simp
  have "temperature_index_all_models example_inputs [example_name] example_region_names [2025]
        = Inr (merge_names example_region_names (map int [1 ..< 28]) [m1, s0, s1])"
    by (simp only: temperature_index_all_models_def a sum.case Let_def dm ds l option.case i f)
  then have "temperature_index_all_models example_inputs [example_name] example_region_names [2025]
        = Inr \<lparr>region_id = [1, 2], region_name = [''Canada'', ''USA''],
          summary_columns = [(''2025_ssp126_model-mean'', [Fin 3, Fin 1]),
                             (''nan_nan_model-std'', [NaN, NaN]),
                             (''2025_ssp126_model-std'', [NaN, NaN])]\<rparr>"
    unfolding m1_def s0_def s1_def by (simp only: example_merge_names)
  moreover have "expected_labels [(''2025'', ''ssp126'')]
       = {''2025_ssp126_model-mean'', ''2025_ssp126_model-std''}"
    by (simp add: expected_labels_def)
  ultimately show ?thesis by simp
qed


section \<open>Properties of the coordinate names\<close>












end
